theory Spec2Isabelle
  imports Complex_Main "HOL-Library.Log_Nat"
begin

section \<open>The auto-stop script of a notebook instance\<close>

text \<open>
  The development follows \<^verbatim>\<open>src/auto-stop-idle/autostop.py\<close>, a script whose statements
  all run at module level. Python strings are modelled as \<^typ>\<open>string\<close> (ASCII text),
  Python integers as \<^typ>\<open>int\<close>, and the exceptions that the script and the library
  functions it calls can raise as values of \<open>exc\<close>. What the script prints and which
  services it calls is recorded as a list of events.
\<close>

subsection \<open>Exceptions, values, events\<close>

datatype exc = GetoptError | SystemExit int | ValueError | TypeError

text \<open>
  \<^verbatim>\<open>datetime\<close> objects without a time zone: the seven fields of the Python class.
\<close>

record datetime =
  year :: int
  month :: int
  day :: int
  hour :: int
  minute :: int
  second :: int
  microsecond :: int

text \<open>The Python values that are passed to \<^verbatim>\<open>is_idle\<close> and to \<^verbatim>\<open>print\<close>.\<close>

datatype pyval = Str_val string | Int_val int | None_val | Datetime_val datetime

text \<open>
  \<open>Print args\<close> is a call \<^verbatim>\<open>print(*args)\<close>; the other events are the calls to the local
  sessions endpoint (with the port) and to the SageMaker client (with the instance name or
  the ARN the call receives).
\<close>

datatype event =
    Print "pyval list"
  | Get_sessions string
  | Describe_notebook_instance string
  | List_tags string
  | Stop_notebook_instance string

text \<open>
  A run of a piece of the script: the events it produced, and either the exception that
  ended it or its value.
\<close>

type_synonym 'a run = "event list \<times> (exc + 'a)"

definition bind_run :: "'a run \<Rightarrow> ('a \<Rightarrow> 'b run) \<Rightarrow> 'b run" where
  "bind_run m f =
     (case m of
        (tr, Inl e) \<Rightarrow> (tr, Inl e)
      | (tr, Inr a) \<Rightarrow> (case f a of (tr', r) \<Rightarrow> (tr @ tr', r)))"

text \<open>
  The exit status of the interpreter: the argument of \<^verbatim>\<open>exit\<close>, 1 after an exception
  that nothing caught, 0 when the script runs to its end.
\<close>

fun exit_code :: "exc + 'a \<Rightarrow> int" where
  "exit_code (Inl (SystemExit n)) = n"
| "exit_code (Inl _) = 1"
| "exit_code (Inr _) = 0"

subsection \<open>Module constants (lines 23--40)\<close>

definition DEFAULT_TAG_KEY :: string where
  "DEFAULT_TAG_KEY = ''AutoStopTimeOut''"

definition usageInfo :: string where
  \<open>usageInfo = ''Usage:\<newline>This scripts checks if a notebook is idle for X seconds if it does, it'll stop the notebook:\<newline>python autostop.py [--time <time_in_seconds>] [--port <jupyter_port>] [--ignore-connections]\<newline>Type "python autostop.py -h" for available options.\<newline>''\<close>

definition helpInfo :: string where
  \<open>helpInfo = ''-t, --time\<newline>    Auto stop time in seconds\<newline>-p, --port\<newline>    jupyter port\<newline>-c --ignore-connections\<newline>    Stop notebook once idle, ignore connected users\<newline>-h, --help\<newline>    Help information\<newline>''\<close>

subsection \<open>The library function \<^verbatim>\<open>getopt.getopt\<close>\<close>

text \<open>
  The script parses its command line with \<^verbatim>\<open>getopt.getopt\<close> of the Python standard
  library. The functions below follow \<^verbatim>\<open>Lib/getopt.py\<close> of CPython function by function;
  every \<^verbatim>\<open>raise GetoptError\<close> there is an \<open>Inl GetoptError\<close> here (the message is dropped,
  the script never reads it).
\<close>

definition startswith :: "string \<Rightarrow> string \<Rightarrow> bool" where
  "startswith s p = (take (length p) s = p)"

definition endswith :: "string \<Rightarrow> string \<Rightarrow> bool" where
  "endswith s p = (length p \<le> length s \<and> drop (length s - length p) s = p)"

fun short_has_arg :: "char \<Rightarrow> string \<Rightarrow> exc + bool" where
  "short_has_arg opt [] = Inl GetoptError"
| "short_has_arg opt (c # rest) =
     (if opt = c \<and> c \<noteq> CHR '':'' then Inr (startswith rest '':'')
      else short_has_arg opt rest)"

type_synonym optlist = "(string \<times> string) list"

fun do_shorts :: "optlist \<Rightarrow> string \<Rightarrow> string \<Rightarrow> string list \<Rightarrow> exc + (optlist \<times> string list)" where
  "do_shorts opts [] shortopts args = Inr (opts, args)"
| "do_shorts opts (opt # optstring) shortopts args =
     (case short_has_arg opt shortopts of
        Inl e \<Rightarrow> Inl e
      | Inr True \<Rightarrow>
          (if optstring = [] then
             (case args of
                [] \<Rightarrow> Inl GetoptError
              | a # args' \<Rightarrow> Inr (opts @ [([CHR ''-'', opt], a)], args'))
           else Inr (opts @ [([CHR ''-'', opt], optstring)], args))
      | Inr False \<Rightarrow> do_shorts (opts @ [([CHR ''-'', opt], [])]) optstring shortopts args)"

definition long_has_args :: "string \<Rightarrow> string list \<Rightarrow> exc + (bool \<times> string)" where
  "long_has_args opt longopts =
     (let possibilities = filter (\<lambda>l. startswith l opt) longopts in
      if possibilities = [] then Inl GetoptError
      else if opt \<in> set possibilities then Inr (False, opt)
      else if opt @ ''='' \<in> set possibilities then Inr (True, opt)
      else if length possibilities > 1 then Inl GetoptError
      else
        (let unique_match = hd possibilities;
             has_arg = endswith unique_match ''=''
         in Inr (has_arg, if has_arg then butlast unique_match else unique_match)))"

definition do_longs :: "optlist \<Rightarrow> string \<Rightarrow> string list \<Rightarrow> string list \<Rightarrow> exc + (optlist \<times> string list)" where
  "do_longs opts opt longopts args =
     (let (opt', optarg) =
            (if CHR ''='' \<in> set opt
             then (takeWhile (\<lambda>c. c \<noteq> CHR ''='') opt,
                   Some (tl (dropWhile (\<lambda>c. c \<noteq> CHR ''='') opt)))
             else (opt, None))
      in case long_has_args opt' longopts of
           Inl e \<Rightarrow> Inl e
         | Inr (has_arg, name) \<Rightarrow>
             (if has_arg then
                (case optarg of
                   None \<Rightarrow>
                     (case args of
                        [] \<Rightarrow> Inl GetoptError
                      | a # args' \<Rightarrow> Inr (opts @ [(''--'' @ name, a)], args'))
                 | Some v \<Rightarrow> Inr (opts @ [(''--'' @ name, v)], args))
              else
                (case optarg of
                   Some v \<Rightarrow> Inl GetoptError
                 | None \<Rightarrow> Inr (opts @ [(''--'' @ name, [])], args))))"

lemma do_shorts_length:
  "do_shorts opts optstring shortopts args = Inr (opts', args') \<Longrightarrow> length args' \<le> length args"
  by (induction opts optstring shortopts args rule: do_shorts.induct)
     (auto split: sum.splits bool.splits if_splits list.splits)

lemma do_longs_length:
  "do_longs opts opt longopts args = Inr (opts', args') \<Longrightarrow> length args' \<le> length args"
  by (auto simp: do_longs_def Let_def split: sum.splits if_splits option.splits list.splits prod.splits)

function getopt_loop :: "optlist \<Rightarrow> string list \<Rightarrow> string \<Rightarrow> string list \<Rightarrow> exc + (optlist \<times> string list)" where
  "getopt_loop opts args shortopts longopts =
     (case args of
        [] \<Rightarrow> Inr (opts, args)
      | a # rest \<Rightarrow>
          (if startswith a ''-'' \<and> a \<noteq> ''-'' then
             (if a = ''--'' then Inr (opts, rest)
              else if startswith a ''--'' then
                (case do_longs opts (drop 2 a) longopts rest of
                   Inl e \<Rightarrow> Inl e
                 | Inr (opts', args') \<Rightarrow> getopt_loop opts' args' shortopts longopts)
              else
                (case do_shorts opts (drop 1 a) shortopts rest of
                   Inl e \<Rightarrow> Inl e
                 | Inr (opts', args') \<Rightarrow> getopt_loop opts' args' shortopts longopts))
           else Inr (opts, args)))"
  by pat_completeness auto
termination
  by (relation "measure (\<lambda>(opts, args, shortopts, longopts). length args)")
     (auto dest: do_shorts_length do_longs_length)

definition getopt :: "string list \<Rightarrow> string \<Rightarrow> string list \<Rightarrow> exc + (optlist \<times> string list)" where
  "getopt args shortopts longopts = getopt_loop [] args shortopts longopts"

subsection \<open>The built-in \<^verbatim>\<open>int\<close> on a string\<close>

text \<open>
  \<^verbatim>\<open>int(s)\<close> for an ASCII string: white space around the literal is dropped, then come an
  optional sign and decimal digits, where a single underscore may stand between two
  digits. Anything else raises \<^verbatim>\<open>ValueError\<close>, and so does a literal with more digit
  characters (leading zeros counted, underscores not) than the interpreter's limit on the
  conversion of strings, 4300 unless the interpreter is configured otherwise.
\<close>

definition int_max_str_digits :: nat where
  "int_max_str_digits = 4300"

definition is_space :: "char \<Rightarrow> bool" where
  "is_space c = (c \<in> set [CHR '' '', CHR 0x09, CHR 0x0A, CHR 0x0B, CHR 0x0C, CHR 0x0D])"

definition is_digit :: "char \<Rightarrow> bool" where
  "is_digit c = (c \<in> set ''0123456789'')"

definition digit_val :: "char \<Rightarrow> int" where
  "digit_val c = int (of_char c) - 48"

definition strip :: "string \<Rightarrow> string" where
  "strip s = rev (dropWhile is_space (rev (dropWhile is_space s)))"

fun parse_digits :: "string \<Rightarrow> int \<Rightarrow> int option" where
  "parse_digits [] acc = Some acc"
| "parse_digits (c # cs) acc =
     (if is_digit c then parse_digits cs (acc * 10 + digit_val c)
      else if c = CHR ''_'' then
        (case cs of
           [] \<Rightarrow> None
         | d # _ \<Rightarrow> if is_digit d then parse_digits cs acc else None)
      else None)"

definition py_int :: "string \<Rightarrow> exc + int" where
  "py_int s =
     (let t = strip s;
          (neg, body) =
            (case t of
               [] \<Rightarrow> (False, t)
             | c # r \<Rightarrow>
                 if c = CHR ''-'' then (True, r)
                 else if c = CHR ''+'' then (False, r)
                 else (False, t))
      in case body of
           [] \<Rightarrow> Inl ValueError
         | c # _ \<Rightarrow>
             if is_digit c then
               (case parse_digits body 0 of
                  None \<Rightarrow> Inl ValueError
                | Some n \<Rightarrow>
                    if length (filter is_digit body) > int_max_str_digits then Inl ValueError
                    else Inr (if neg then - n else n))
             else Inl ValueError)"

subsection \<open>Reading the command line (lines 42--64)\<close>

text \<open>The module-level variables that the script assigns.\<close>

record vars =
  idle :: bool
  port :: string
  ignore_connections :: bool
  idle_timeout :: "int option"

definition default_idle_timeout :: int where
  "default_idle_timeout = 3600"

definition initial_vars :: vars where
  "initial_vars = \<lparr>idle = True, port = ''8443'', ignore_connections = False, idle_timeout = None\<rparr>"

text \<open>
  The \<^verbatim>\<open>for opt, arg in opts\<close> loop. \<^verbatim>\<open>exit(0)\<close> raises \<^verbatim>\<open>SystemExit\<close>, and
  \<^verbatim>\<open>int(arg)\<close> may raise \<^verbatim>\<open>ValueError\<close>; either ends the loop.
\<close>

fun opts_loop :: "optlist \<Rightarrow> vars \<Rightarrow> vars run" where
  "opts_loop [] v = ([], Inr v)"
| "opts_loop ((opt, arg) # opts) v =
     (if opt \<in> set [''-h'', ''--help''] then ([Print [Str_val helpInfo]], Inl (SystemExit 0))
      else
        (case (if opt \<in> set [''-t'', ''--time''] then
                 (case py_int arg of
                    Inl e \<Rightarrow> Inl e
                  | Inr n \<Rightarrow> Inr (v\<lparr>idle_timeout := Some n\<rparr>))
               else Inr v) of
           Inl e \<Rightarrow> ([], Inl e)
         | Inr v1 \<Rightarrow>
             (let v2 = (if opt \<in> set [''-p'', ''--port''] then v1\<lparr>port := arg\<rparr> else v1);
                  v3 = (if opt \<in> set [''-c'', ''--ignore-connections'']
                        then v2\<lparr>ignore_connections := True\<rparr> else v2)
              in opts_loop opts v3)))"

definition shortopts :: string where
  "shortopts = ''ht:p:c''"

definition longopts :: "string list" where
  "longopts = [''help'', ''time='', ''port='', ''ignore-connections'']"

text \<open>
  The \<^verbatim>\<open>try\<close> statement: only \<^verbatim>\<open>GetoptError\<close> is caught, by printing the usage text and
  leaving with status 1.
\<close>

definition read_command_line :: "string list \<Rightarrow> vars run" where
  "read_command_line argv =
     (case (case getopt argv shortopts longopts of
              Inl e \<Rightarrow> ([], Inl e)
            | Inr (opts, args) \<Rightarrow>
                if length opts = 0 then ([], Inl GetoptError)
                else opts_loop opts initial_vars) of
        (tr, r) \<Rightarrow>
          if r = Inl GetoptError then (tr @ [Print [Str_val usageInfo]], Inl (SystemExit 1))
          else (tr, r))"

subsection \<open>Dates and times: the library class \<^verbatim>\<open>datetime\<close>\<close>

text \<open>
  The proleptic Gregorian calendar of \<^verbatim>\<open>Lib/datetime.py\<close>: day 1 is 1 January of year 1.
\<close>

definition is_leap :: "int \<Rightarrow> bool" where
  "is_leap y = (y mod 4 = 0 \<and> (y mod 100 \<noteq> 0 \<or> y mod 400 = 0))"

definition DAYS_IN_MONTH :: "int list" where
  "DAYS_IN_MONTH = [31, 28, 31, 30, 31, 30, 31, 31, 30, 31, 30, 31]"

definition days_in_month :: "int \<Rightarrow> int \<Rightarrow> int" where
  "days_in_month y m = (if m = 2 \<and> is_leap y then 29 else DAYS_IN_MONTH ! nat (m - 1))"

definition days_before_year :: "int \<Rightarrow> int" where
  "days_before_year y = (let z = y - 1 in z * 365 + z div 4 - z div 100 + z div 400)"

definition days_before_month :: "int \<Rightarrow> int \<Rightarrow> int" where
  "days_before_month y m =
     sum_list (take (nat (m - 1)) DAYS_IN_MONTH) + (if m > 2 \<and> is_leap y then 1 else 0)"

definition ymd2ord :: "int \<Rightarrow> int \<Rightarrow> int \<Rightarrow> int" where
  "ymd2ord y m d = days_before_year y + days_before_month y m + d"

definition toordinal :: "datetime \<Rightarrow> int" where
  "toordinal dt = ymd2ord (year dt) (month dt) (day dt)"

text \<open>
  The constructor \<^verbatim>\<open>datetime(year, month, day, hour, minute, second, microsecond)\<close>
  checks the range of every field and raises \<^verbatim>\<open>ValueError\<close> outside it.
\<close>

definition new_datetime :: "int \<Rightarrow> int \<Rightarrow> int \<Rightarrow> int \<Rightarrow> int \<Rightarrow> int \<Rightarrow> int \<Rightarrow> exc + datetime" where
  "new_datetime y m d hh mm ss us =
     (if 1 \<le> y \<and> y \<le> 9999 \<and> 1 \<le> m \<and> m \<le> 12 \<and> 1 \<le> d \<and> d \<le> days_in_month y m
         \<and> 0 \<le> hh \<and> hh \<le> 23 \<and> 0 \<le> mm \<and> mm \<le> 59 \<and> 0 \<le> ss \<and> ss \<le> 59
         \<and> 0 \<le> us \<and> us \<le> 999999
      then Inr \<lparr>year = y, month = m, day = d, hour = hh, minute = mm, second = ss,
                microsecond = us\<rparr>
      else Inl ValueError)"

text \<open>
  \<^verbatim>\<open>timedelta\<close>: the constructor normalises, so that \<open>0 \<le> seconds < 86400\<close> and
  \<open>0 \<le> microseconds < 1000000\<close>; the difference of two datetimes without time zone is
  built from the differences of the day numbers, of the seconds in the day and of the
  microseconds.
\<close>

record timedelta =
  days :: int
  seconds :: int
  microseconds :: int

definition new_timedelta :: "int \<Rightarrow> int \<Rightarrow> int \<Rightarrow> timedelta" where
  "new_timedelta d s us =
     (let s1 = s + us div 1000000;
          d1 = d + s1 div 86400
      in \<lparr>days = d1, seconds = s1 mod 86400, microseconds = us mod 1000000\<rparr>)"

definition datetime_sub :: "datetime \<Rightarrow> datetime \<Rightarrow> timedelta" where
  "datetime_sub a b =
     new_timedelta (toordinal a - toordinal b)
       ((second a + minute a * 60 + hour a * 3600) - (second b + minute b * 60 + hour b * 3600))
       (microsecond a - microsecond b)"

definition to_microseconds :: "timedelta \<Rightarrow> int" where
  "to_microseconds td = (days td * 86400 + seconds td) * 1000000 + microseconds td"

subsection \<open>\<^verbatim>\<open>total_seconds\<close>: a correctly rounded quotient\<close>

text \<open>
  \<^verbatim>\<open>total_seconds()\<close> divides the microseconds of the timedelta by \<^verbatim>\<open>10**6\<close>. The quotient of
  two Python integers is the binary64 number nearest to the exact quotient, ties going to
  the even significand. That number is computed here as a rational: the exponent of the
  leading bit comes from the bit lengths, the quotient is scaled to a significand of 53
  bits and rounded. The spans between two datetimes are below \<open>2 ^ 39\<close> seconds and, unless
  zero, at least a microsecond, well inside the range of normal binary64 numbers, so
  neither overflow nor gradual underflow is modelled.
\<close>

definition round_half_even :: "rat \<Rightarrow> int" where
  "round_half_even x =
     (let f = \<lfloor>x\<rfloor>; r = x - of_int f
      in if r < 1 / 2 then f
         else if 1 / 2 < r then f + 1
         else if even f then f
         else f + 1)"

definition floor_log2_quot :: "int \<Rightarrow> int \<Rightarrow> int" where
  "floor_log2_quot p q =
     (let d = bitlen p - bitlen q
      in if (of_int q :: rat) * 2 powi d \<le> of_int p then d else d - 1)"

definition nearest_double :: "int \<Rightarrow> int \<Rightarrow> rat" where
  "nearest_double a b =
     (if a = 0 then 0
      else
        (let e = floor_log2_quot \<bar>a\<bar> \<bar>b\<bar> - 52
         in of_int (round_half_even (of_int a / of_int b / 2 powi e)) * 2 powi e))"

definition total_seconds :: "timedelta \<Rightarrow> rat" where
  "total_seconds td = nearest_double (to_microseconds td) 1000000"

subsection \<open>\<^verbatim>\<open>strptime\<close> and \<^verbatim>\<open>strftime\<close> with the script's format\<close>

text \<open>
  \<^verbatim>\<open>datetime.strptime(s, "%Y-%m-%dT%H:%M:%S.%fz")\<close> turns the format into a regular
  expression, matched without regard to case, that must cover the whole of \<open>s\<close>. Each
  directive stands for digits (the day also for a blank and a digit) and is followed by a
  literal character that is neither, so a directive matches exactly the longest run of
  its characters, and that run must be one of the alternatives of the directive. The
  alternatives below are those of \<^verbatim>\<open>Lib/_strptime.py\<close>.
\<close>

definition re_Y :: "string \<Rightarrow> bool" where
  "re_Y tok = (length tok = 4)"

definition re_m :: "string \<Rightarrow> bool" where
  "re_m tok =
     (case tok of
        [a] \<Rightarrow> a \<in> set ''123456789''
      | [a, b] \<Rightarrow> a = CHR ''1'' \<and> b \<in> set ''012'' \<or> a = CHR ''0'' \<and> b \<in> set ''123456789''
      | _ \<Rightarrow> False)"

definition re_d :: "string \<Rightarrow> bool" where
  "re_d tok =
     (case tok of
        [a] \<Rightarrow> a \<in> set ''123456789''
      | [a, b] \<Rightarrow>
          a = CHR ''3'' \<and> b \<in> set ''01'' \<or> a \<in> set ''12'' \<and> is_digit b
          \<or> a = CHR ''0'' \<and> b \<in> set ''123456789'' \<or> a = CHR '' '' \<and> b \<in> set ''123456789''
      | _ \<Rightarrow> False)"

definition re_H :: "string \<Rightarrow> bool" where
  "re_H tok =
     (case tok of
        [a] \<Rightarrow> is_digit a
      | [a, b] \<Rightarrow> a = CHR ''2'' \<and> b \<in> set ''0123'' \<or> a \<in> set ''01'' \<and> is_digit b
      | _ \<Rightarrow> False)"

definition re_M :: "string \<Rightarrow> bool" where
  "re_M tok =
     (case tok of
        [a] \<Rightarrow> is_digit a
      | [a, b] \<Rightarrow> a \<in> set ''012345'' \<and> is_digit b
      | _ \<Rightarrow> False)"

definition re_S :: "string \<Rightarrow> bool" where
  "re_S tok =
     (case tok of
        [a] \<Rightarrow> is_digit a
      | [a, b] \<Rightarrow> a = CHR ''6'' \<and> b \<in> set ''01'' \<or> a \<in> set ''012345'' \<and> is_digit b
      | _ \<Rightarrow> False)"

definition re_f :: "string \<Rightarrow> bool" where
  "re_f tok = (1 \<le> length tok \<and> length tok \<le> 6)"

text \<open>
  \<open>directive alphabet re s\<close> cuts the longest run of the directive's characters off \<open>s\<close>;
  \<open>literal cs s\<close> reads one character of \<open>cs\<close> (the two cases of a letter).
\<close>

definition directive :: "(char \<Rightarrow> bool) \<Rightarrow> (string \<Rightarrow> bool) \<Rightarrow> string \<Rightarrow> (string \<times> string) option" where
  "directive alphabet re s =
     (let tok = takeWhile alphabet s
      in if re tok then Some (tok, dropWhile alphabet s) else None)"

fun literal :: "string \<Rightarrow> string \<Rightarrow> string option" where
  "literal cs [] = None"
| "literal cs (c # s) = (if c \<in> set cs then Some s else None)"

definition strptime_match :: "string \<Rightarrow> string list option" where
  "strptime_match s0 =
     Option.bind (directive is_digit re_Y s0) (\<lambda>(tY, s1).
     Option.bind (literal ''-'' s1) (\<lambda>s2.
     Option.bind (directive is_digit re_m s2) (\<lambda>(tm, s3).
     Option.bind (literal ''-'' s3) (\<lambda>s4.
     Option.bind (directive (\<lambda>c. is_digit c \<or> c = CHR '' '') re_d s4) (\<lambda>(td, s5).
     Option.bind (literal ''Tt'' s5) (\<lambda>s6.
     Option.bind (directive is_digit re_H s6) (\<lambda>(tH, s7).
     Option.bind (literal '':'' s7) (\<lambda>s8.
     Option.bind (directive is_digit re_M s8) (\<lambda>(tM, s9).
     Option.bind (literal '':'' s9) (\<lambda>s10.
     Option.bind (directive is_digit re_S s10) (\<lambda>(tS, s11).
     Option.bind (literal ''.'' s11) (\<lambda>s12.
     Option.bind (directive is_digit re_f s12) (\<lambda>(tf, s13).
     Option.bind (literal ''zZ'' s13) (\<lambda>s14.
       if s14 = [] then Some [tY, tm, td, tH, tM, tS, tf] else None))))))))))))))"

text \<open>
  The matched texts are converted with \<^verbatim>\<open>int\<close> (the fraction after padding it with zeros
  to six digits), and the constructor rejects what is no date or time: year 0, a day
  beyond the end of the month, the seconds 60 and 61 that the expression lets through.
\<close>

definition strptime :: "string \<Rightarrow> exc + datetime" where
  "strptime s =
     (case strptime_match s of
        Some [tY, tm, td, tH, tM, tS, tf] \<Rightarrow>
          (case map py_int [tY, tm, td, tH, tM, tS, tf @ replicate (6 - length tf) CHR ''0''] of
             [Inr y, Inr m, Inr d, Inr hh, Inr mm, Inr ss, Inr us] \<Rightarrow> new_datetime y m d hh mm ss us
           | _ \<Rightarrow> Inl ValueError)
      | _ \<Rightarrow> Inl ValueError)"

text \<open>
  \<^verbatim>\<open>dt.strftime("%Y-%m-%dT%H:%M:%S.%fz")\<close>: every field in decimal, padded with zeros to
  its width. (For a year below 1000 the C library decides whether \<^verbatim>\<open>%Y\<close> is padded;
  the model pads.)
\<close>

fun digits_of :: "nat \<Rightarrow> string" where
  "digits_of n =
     (if n < 10 then [''0123456789'' ! n]
      else digits_of (n div 10) @ [''0123456789'' ! (n mod 10)])"

definition zero_pad :: "nat \<Rightarrow> int \<Rightarrow> string" where
  "zero_pad w n = (let ds = digits_of (nat n) in replicate (w - length ds) CHR ''0'' @ ds)"

definition strftime :: "datetime \<Rightarrow> string" where
  "strftime dt =
     zero_pad 4 (year dt) @ ''-'' @ zero_pad 2 (month dt) @ ''-'' @ zero_pad 2 (day dt) @ ''T''
     @ zero_pad 2 (hour dt) @ '':'' @ zero_pad 2 (minute dt) @ '':'' @ zero_pad 2 (second dt)
     @ ''.'' @ zero_pad 6 (microsecond dt) @ ''z''"

subsection \<open>\<^verbatim>\<open>is_idle\<close> (lines 67--74)\<close>

text \<open>
  \<open>now\<close> is what \<^verbatim>\<open>datetime.now()\<close> returns during the call. \<^verbatim>\<open>strptime\<close> raises
  \<^verbatim>\<open>TypeError\<close> on anything but a string, and so does the comparison of a float with
  anything but a number.
\<close>

definition is_idle :: "datetime \<Rightarrow> pyval \<Rightarrow> pyval \<Rightarrow> bool run" where
  "is_idle now last_activity idle_timeout' =
     (case last_activity of
        Str_val s \<Rightarrow>
          (case strptime s of
             Inl e \<Rightarrow> ([], Inl e)
           | Inr dt \<Rightarrow>
               (case idle_timeout' of
                  Int_val t \<Rightarrow>
                    if total_seconds (datetime_sub now dt) > of_int t
                    then ([Print [Str_val ''Notebook is idle. Last activity time = '', Datetime_val dt]],
                          Inr True)
                    else ([Print [Str_val ''Notebook is not idle. Last activity time = '', Datetime_val dt]],
                          Inr False)
                | _ \<Rightarrow> ([], Inl TypeError)))
      | _ \<Rightarrow> ([], Inl TypeError))"

text \<open>
  A call of \<^verbatim>\<open>is_idle\<close> with positional arguments: the function has two required
  parameters, and a call with any other number of arguments raises \<^verbatim>\<open>TypeError\<close>
  before the body runs.
\<close>

fun call_is_idle :: "datetime \<Rightarrow> pyval list \<Rightarrow> bool run" where
  "call_is_idle now [last_activity, idle_timeout'] = is_idle now last_activity idle_timeout'"
| "call_is_idle now _ = ([], Inl TypeError)"

subsection \<open>The world around the script\<close>

text \<open>
  \<open>notebook_resource\<close> is the named tuple of lines 18--20. A session is an element of the
  list that the sessions endpoint of the notebook server returns; the script reads three
  entries of its \<^verbatim>\<open>kernel\<close> dictionary. A tag is a dictionary with the keys \<^verbatim>\<open>Key\<close> and
  \<^verbatim>\<open>Value\<close>.
\<close>

record notebook_resource =
  arn :: string
  name :: string

record session =
  kernel_execution_state :: string
  kernel_connections :: int
  kernel_last_activity :: string

record tag =
  Key :: string
  Value :: string

text \<open>
  What one invocation finds outside: the clock, the metadata file, the answer of the
  sessions endpoint, and the answers of the SageMaker client, all taken to arrive (the
  script has no handler for a call that fails). \<open>annotations_deferred\<close> tells whether the
  interpreter leaves the annotations of a \<^verbatim>\<open>def\<close> statement unevaluated (CPython from
  3.14 on) or evaluates them when the statement runs (every earlier version).
\<close>

record env =
  annotations_deferred :: bool
  now :: datetime
  resource_metadata :: notebook_resource
  sessions :: "session list"
  LastModifiedTime :: datetime
  Tags :: "tag list"

subsection \<open>The function definitions (lines 67--90)\<close>

text \<open>
  The three \<^verbatim>\<open>def\<close> statements bind names and run no body. The third carries the
  annotation \<^verbatim>\<open>Dict[str, List[str, str]]\<close>; \<^verbatim>\<open>typing.List\<close> takes one parameter, and
  subscripting it with two raises \<^verbatim>\<open>TypeError\<close>, which ends the script at line 86 on an
  interpreter that evaluates annotations at once.
\<close>

definition function_definitions :: "env \<Rightarrow> unit run" where
  "function_definitions e = (if annotations_deferred e then ([], Inr ()) else ([], Inl TypeError))"

definition get_notebook_resource :: "env \<Rightarrow> notebook_resource" where
  "get_notebook_resource e =
     \<lparr>arn = arn (resource_metadata e), name = name (resource_metadata e)\<rparr>"

text \<open>
  \<^verbatim>\<open>get_notebook_timeout_tag\<close> (lines 86--89) walks through its argument and reads the
  entries \<^verbatim>\<open>Key\<close> and \<^verbatim>\<open>Value\<close> of each element, so the argument is a list of tags; it
  returns \<^verbatim>\<open>None\<close> when no element has the key.
\<close>

fun get_notebook_timeout_tag :: "tag list \<Rightarrow> exc + int option" where
  "get_notebook_timeout_tag [] = Inr None"
| "get_notebook_timeout_tag (t # tags) =
     (if Key t = DEFAULT_TAG_KEY then
        (case py_int (Value t) of
           Inl e \<Rightarrow> Inl e
         | Inr n \<Rightarrow> Inr (Some n))
      else get_notebook_timeout_tag tags)"

text \<open>
  A call of \<^verbatim>\<open>get_notebook_timeout_tag\<close> with positional arguments; the function has
  one required parameter.
\<close>

fun call_get_notebook_timeout_tag :: "tag list list \<Rightarrow> int option run" where
  "call_get_notebook_timeout_tag [tags] = ([], get_notebook_timeout_tag tags)"
| "call_get_notebook_timeout_tag _ = ([], Inl TypeError)"

subsection \<open>The checks (lines 93--131)\<close>

definition str_bool :: "bool \<Rightarrow> string" where
  "str_bool b = (if b then ''True'' else ''False'')"

text \<open>\<^verbatim>\<open>not idle_timeout\<close>: true for \<^verbatim>\<open>None\<close> and for 0.\<close>

definition not_timeout :: "int option \<Rightarrow> bool" where
  "not_timeout t = (case t of None \<Rightarrow> True | Some n \<Rightarrow> n = 0)"

definition timeout_val :: "int option \<Rightarrow> pyval" where
  "timeout_val t = (case t of None \<Rightarrow> None_val | Some n \<Rightarrow> Int_val n)"

text \<open>
  The body of the \<^verbatim>\<open>for notebook in data\<close> loop (lines 98--114). Both calls of
  \<^verbatim>\<open>is_idle\<close> pass the last activity alone.
\<close>

definition check_session :: "datetime \<Rightarrow> session \<Rightarrow> vars \<Rightarrow> vars run" where
  "check_session clock notebook v =
     (if kernel_execution_state notebook = ''idle'' then
        (if \<not> ignore_connections v then
           (if kernel_connections notebook = 0 then
              bind_run (call_is_idle clock [Str_val (kernel_last_activity notebook)])
                (\<lambda>r. if \<not> r then ([], Inr (v\<lparr>idle := False\<rparr>)) else ([], Inr v))
            else
              (let v1 = v\<lparr>idle := False\<rparr>
               in ([Print [Str_val (''Notebook idle state set as '' @ str_bool (idle v1)
                            @ '' because no kernel has been detected.'')]], Inr v1)))
         else
           bind_run (call_is_idle clock [Str_val (kernel_last_activity notebook)])
             (\<lambda>r. if \<not> r then
                    (let v1 = v\<lparr>idle := False\<rparr>
                     in ([Print [Str_val (''Notebook idle state set as '' @ str_bool (idle v1)
                                  @ '' since kernel connections are ignored.'')]], Inr v1))
                  else ([], Inr v)))
      else
        ([Print [Str_val ''Notebook is not idle:'', Str_val (kernel_execution_state notebook)]],
         Inr (v\<lparr>idle := False\<rparr>)))"

fun session_loop :: "datetime \<Rightarrow> session list \<Rightarrow> vars \<Rightarrow> vars run" where
  "session_loop clock [] v = ([], Inr v)"
| "session_loop clock (notebook # data) v =
     bind_run (check_session clock notebook v) (session_loop clock data)"

text \<open>
  Lines 123--127, the choice of the timeout in the \<^verbatim>\<open>else\<close> branch. Line 124 calls
  \<^verbatim>\<open>get_notebook_timeout_tag\<close> without an argument.
\<close>

definition select_timeout :: "vars \<Rightarrow> vars run" where
  "select_timeout v =
     bind_run
       (if not_timeout (idle_timeout v) then
          bind_run (call_get_notebook_timeout_tag [])
            (\<lambda>r. ([], Inr (v\<lparr>idle_timeout := r\<rparr>)))
        else ([], Inr v))
       (\<lambda>v1. ([], Inr (if not_timeout (idle_timeout v1)
                        then v1\<lparr>idle_timeout := Some default_idle_timeout\<rparr> else v1)))"

text \<open>
  The \<^verbatim>\<open>else\<close> branch (lines 116--131), taken when the list of sessions is empty: the two
  client calls, the choice of the timeout, and \<^verbatim>\<open>is_idle\<close> on the time of the last
  modification.
\<close>

definition instance_check :: "env \<Rightarrow> notebook_resource \<Rightarrow> vars \<Rightarrow> vars run" where
  "instance_check e res v =
     bind_run ([Describe_notebook_instance (name res), List_tags (arn res)],
               Inr (LastModifiedTime e, Tags e))
       (\<lambda>(uptime, tags).
          bind_run (select_timeout v)
            (\<lambda>v2.
               bind_run
                 (call_is_idle (now e) [Str_val (strftime uptime), timeout_val (idle_timeout v2)])
                 (\<lambda>r. if \<not> r then
                        (let v3 = v2\<lparr>idle := False\<rparr>
                         in ([Print [Str_val (''Notebook idle state set as '' @ str_bool (idle v3)
                                      @ '' since no sessions detected.'')]], Inr v3))
                      else ([], Inr v2))))"

definition idle_checks :: "env \<Rightarrow> vars \<Rightarrow> vars run" where
  "idle_checks e v =
     (let res = get_notebook_resource e
      in bind_run ([Get_sessions (port v)], Inr (sessions e))
           (\<lambda>data. if length data > 0 then session_loop (now e) data v
                    else instance_check e res v))"

subsection \<open>The decision (lines 133--140) and the whole script\<close>

definition stop_decision :: "env \<Rightarrow> vars \<Rightarrow> unit run" where
  "stop_decision e v =
     (if idle v then
        ([Print [Str_val ''Closing idle notebook''],
          Stop_notebook_instance (name (get_notebook_resource e))], Inr ())
      else ([Print [Str_val ''Notebook not idle. Pass.'']], Inr ()))"

text \<open>
  \<open>idle_determination\<close> is the script up to line 131: it ends with the variables, among
  them the flag \<^verbatim>\<open>idle\<close>, that the decision of line 133 reads.
\<close>

definition idle_determination :: "string list \<Rightarrow> env \<Rightarrow> vars run" where
  "idle_determination argv e =
     bind_run (read_command_line argv)
       (\<lambda>v. bind_run (function_definitions e) (\<lambda>_. idle_checks e v))"

definition main :: "string list \<Rightarrow> env \<Rightarrow> unit run" where
  "main argv e = bind_run (idle_determination argv e) (stop_decision e)"

subsection \<open>An example invocation\<close>

text \<open>
  A concrete world for the closed statements below: no session is open, the instance was
  last modified three hours before the script runs, and it carries the tag
  \<^verbatim>\<open>AutoStopTimeOut\<close>.
\<close>

definition example_env :: env where
  "example_env =
     \<lparr>annotations_deferred = True,
      now = \<lparr>year = 2024, month = 5, day = 1, hour = 12, minute = 0, second = 0,
              microsecond = 0\<rparr>,
      resource_metadata =
        \<lparr>arn = ''arn:aws:sagemaker:eu-west-1:123456789012:notebook-instance/demo'',
         name = ''demo''\<rparr>,
      sessions = [],
      LastModifiedTime = \<lparr>year = 2024, month = 5, day = 1, hour = 9, minute = 0, second = 0,
                           microsecond = 0\<rparr>,
      Tags = [\<lparr>Key = ''AutoStopTimeOut'', Value = ''120''\<rparr>]\<rparr>"

text \<open>Three sessions: one idle and unattended, one busy, one idle with two connections.\<close>

definition idle_session :: session where
  "idle_session = \<lparr>kernel_execution_state = ''idle'', kernel_connections = 0,
                    kernel_last_activity = ''2024-05-01T09:00:00.000000Z''\<rparr>"

definition busy_session :: session where
  "busy_session = \<lparr>kernel_execution_state = ''busy'', kernel_connections = 1,
                    kernel_last_activity = ''2024-05-01T11:59:00.000000Z''\<rparr>"

definition connected_session :: session where
  "connected_session = \<lparr>kernel_execution_state = ''idle'', kernel_connections = 2,
                         kernel_last_activity = ''2024-05-01T09:00:00.000000Z''\<rparr>"

subsection \<open>Notions for the statements\<close>

text \<open>The instance names on which a run called \<^verbatim>\<open>stop_notebook_instance\<close>, in order.\<close>

fun stop_calls :: "event list \<Rightarrow> string list" where
  "stop_calls [] = []"
| "stop_calls (Stop_notebook_instance n # tr) = n # stop_calls tr"
| "stop_calls (_ # tr) = stop_calls tr"

text \<open>
  A session passes its checks when the loop body leaves the flag alone: the kernel is
  idle, nobody is connected unless connections are ignored, and the call of \<^verbatim>\<open>is_idle\<close>
  that the body makes returns \<^verbatim>\<open>True\<close>.
\<close>

definition passes_checks :: "datetime \<Rightarrow> vars \<Rightarrow> session \<Rightarrow> bool" where
  "passes_checks clock v notebook =
     (kernel_execution_state notebook = ''idle''
      \<and> (ignore_connections v \<or> kernel_connections notebook = 0)
      \<and> snd (call_is_idle clock [Str_val (kernel_last_activity notebook)]) = Inr True)"

text \<open>
  The time between two datetimes, counted exactly: the microseconds from the start of
  day 0 to each of them, and their difference.
\<close>

definition microseconds_since_epoch :: "datetime \<Rightarrow> int" where
  "microseconds_since_epoch dt =
     (toordinal dt * 86400 + hour dt * 3600 + minute dt * 60 + second dt) * 1000000
     + microsecond dt"

definition elapsed_microseconds :: "datetime \<Rightarrow> datetime \<Rightarrow> int" where
  "elapsed_microseconds clock dt = microseconds_since_epoch clock - microseconds_since_epoch dt"

text \<open>
  The timeout of the fallback branch as the specification words it: the value of the
  command-line flag if given, otherwise the value of the tag, otherwise 3600.
\<close>

definition spec_timeout :: "int option \<Rightarrow> int option \<Rightarrow> int" where
  "spec_timeout cli tag_value =
     (case cli of
        Some t \<Rightarrow> t
      | None \<Rightarrow> (case tag_value of Some n \<Rightarrow> n | None \<Rightarrow> 3600))"

section \<open>Properties\<close>

subsection \<open>Runs\<close>

lemma bind_run_Inl [simp]: "bind_run (tr, Inl x) f = (tr, Inl x)"
  by (simp add: bind_run_def)

lemma bind_run_Inr [simp]: "bind_run (tr, Inr a) f = (tr @ fst (f a), snd (f a))"
  by (simp add: bind_run_def split: prod.splits)

lemma fst_bind_run:
  "fst (bind_run m f) = fst m @ (case snd m of Inl x \<Rightarrow> [] | Inr a \<Rightarrow> fst (f a))"
  by (cases m; cases "snd m") auto

lemma snd_bind_run:
  "snd (bind_run m f) = (case snd m of Inl x \<Rightarrow> Inl x | Inr a \<Rightarrow> snd (f a))"
  by (cases m; cases "snd m") auto

subsection \<open>The example, evaluated\<close>

lemma getopt_c: "getopt [''-c''] shortopts longopts = Inr ([(''-c'', [])], [])"
  by (simp add: getopt_def shortopts_def longopts_def startswith_def)

lemma getopt_t60: "getopt [''-t'', ''60''] shortopts longopts = Inr ([(''-t'', ''60'')], [])"
  by (simp add: getopt_def shortopts_def longopts_def startswith_def)

lemma getopt_t0: "getopt [''-t'', ''0''] shortopts longopts = Inr ([(''-t'', ''0'')], [])"
  by (simp add: getopt_def shortopts_def longopts_def startswith_def)

lemma py_int_60: "py_int ''60'' = Inr 60"
  by (simp add: py_int_def int_max_str_digits_def strip_def is_space_def is_digit_def digit_val_def)

lemma py_int_0: "py_int ''0'' = Inr 0"
  by (simp add: py_int_def int_max_str_digits_def strip_def is_space_def is_digit_def digit_val_def)

lemma read_command_line_c:
  "read_command_line [''-c''] = ([], Inr (initial_vars\<lparr>ignore_connections := True\<rparr>))"
  by (simp add: read_command_line_def getopt_c)

lemma read_command_line_t60:
  "read_command_line [''-t'', ''60''] = ([], Inr (initial_vars\<lparr>idle_timeout := Some 60\<rparr>))"
  by (simp add: read_command_line_def getopt_t60 py_int_60)

lemma read_command_line_t0:
  "read_command_line [''-t'', ''0''] = ([], Inr (initial_vars\<lparr>idle_timeout := Some 0\<rparr>))"
  by (simp add: read_command_line_def getopt_t0 py_int_0)

lemma strftime_example:
  "strftime (LastModifiedTime example_env) = ''2024-05-01T09:00:00.000000z''"
  by code_simp

lemma strptime_example:
  "strptime ''2024-05-01T09:00:00.000000z'' = Inr (LastModifiedTime example_env)"
  by (simp add: strptime_def strptime_match_def directive_def is_digit_def re_Y_def re_m_def re_d_def
       re_H_def re_M_def re_S_def re_f_def py_int_def int_max_str_digits_def strip_def is_space_def digit_val_def
       new_datetime_def days_in_month_def DAYS_IN_MONTH_def is_leap_def example_env_def)

lemma microseconds_example:
  "to_microseconds (datetime_sub (now example_env) (LastModifiedTime example_env)) = 10800000000"
  by (simp add: to_microseconds_def datetime_sub_def new_timedelta_def toordinal_def ymd2ord_def
       example_env_def)

lemma total_seconds_example:
  "total_seconds (datetime_sub (now example_env) (LastModifiedTime example_env)) = 10800"
  unfolding total_seconds_def microseconds_example by code_simp

lemma is_idle_example:
  "is_idle (now example_env) (Str_val ''2024-05-01T09:00:00.000000z'') (Int_val 60)
     = ([Print [Str_val ''Notebook is idle. Last activity time = '',
                Datetime_val (LastModifiedTime example_env)]], Inr True)"
  by (simp add: is_idle_def strptime_example total_seconds_example)

lemma example_env_fields:
  "annotations_deferred example_env" "sessions example_env = []"
  "name (resource_metadata example_env) = ''demo''"
  "arn (resource_metadata example_env)
     = ''arn:aws:sagemaker:eu-west-1:123456789012:notebook-instance/demo''"
  by (simp_all add: example_env_def)

lemma idle_determination_c:
  "idle_determination [''-c''] example_env
     = ([Get_sessions ''8443'', Describe_notebook_instance ''demo'',
         List_tags ''arn:aws:sagemaker:eu-west-1:123456789012:notebook-instance/demo''],
        Inl TypeError)"
  by (simp add: idle_determination_def read_command_line_c function_definitions_def
        idle_checks_def instance_check_def select_timeout_def initial_vars_def not_timeout_def
        get_notebook_resource_def example_env_fields)

lemma idle_determination_t0:
  "idle_determination [''-t'', ''0''] example_env
     = ([Get_sessions ''8443'', Describe_notebook_instance ''demo'',
         List_tags ''arn:aws:sagemaker:eu-west-1:123456789012:notebook-instance/demo''],
        Inl TypeError)"
  by (simp add: idle_determination_def read_command_line_t0 function_definitions_def
        idle_checks_def instance_check_def select_timeout_def initial_vars_def not_timeout_def
        get_notebook_resource_def example_env_fields)

lemma idle_determination_t60:
  "idle_determination [''-t'', ''60''] example_env
     = ([Get_sessions ''8443'', Describe_notebook_instance ''demo'',
         List_tags ''arn:aws:sagemaker:eu-west-1:123456789012:notebook-instance/demo'',
         Print [Str_val ''Notebook is idle. Last activity time = '',
                Datetime_val (LastModifiedTime example_env)]],
        Inr (initial_vars\<lparr>idle_timeout := Some 60\<rparr>))"
proof -
  have e: "annotations_deferred example_env" "sessions example_env = []"
      "name (resource_metadata example_env) = ''demo''"
      "arn (resource_metadata example_env)
         = ''arn:aws:sagemaker:eu-west-1:123456789012:notebook-instance/demo''"
    by (simp_all add: example_env_def)
  show ?thesis
    by (simp add: idle_determination_def read_command_line_t60 function_definitions_def
          idle_checks_def instance_check_def select_timeout_def initial_vars_def not_timeout_def
          timeout_val_def get_notebook_resource_def e strftime_example is_idle_example)
qed

subsection \<open>The command line\<close>

lemma main_command_line_error:
  "read_command_line argv = (tr, Inl x) \<Longrightarrow> main argv e = (tr, Inl x)"
  by (simp add: main_def idle_determination_def)

lemma read_command_line_getopt_error:
  "getopt argv shortopts longopts = Inl GetoptError \<Longrightarrow>
     read_command_line argv = ([Print [Str_val usageInfo]], Inl (SystemExit 1))"
  by (simp add: read_command_line_def)

lemma read_command_line_no_opts:
  "getopt argv shortopts longopts = Inr ([], args) \<Longrightarrow>
     read_command_line argv = ([Print [Str_val usageInfo]], Inl (SystemExit 1))"
  by (simp add: read_command_line_def)

text \<open>
  The loop over the options reaches a help option when every \<^verbatim>\<open>-t\<close> before it carries
  an integer; it then prints the help text and leaves with status 0, whatever follows.
\<close>

lemma opts_loop_help:
  "h \<in> {''-h'', ''--help''} \<Longrightarrow>
   \<forall>(opt, arg) \<in> set pre. opt \<in> {''-t'', ''--time''} \<longrightarrow> \<not> isl (py_int arg) \<Longrightarrow>
   opts_loop (pre @ (h, a) # post) v = ([Print [Str_val helpInfo]], Inl (SystemExit 0))"
proof (induction pre arbitrary: v)
  case Nil
  then show ?case by auto
next
  case (Cons p pre)
  obtain opt arg where p: "p = (opt, arg)" by (cases p)
  show ?case
  proof (cases "opt \<in> {''-h'', ''--help''}")
    case True
    then show ?thesis using p by auto
  next
    case False
    have rest: "\<And>w. opts_loop (pre @ (h, a) # post) w
                    = ([Print [Str_val helpInfo]], Inl (SystemExit 0))"
      using Cons by auto
    show ?thesis
    proof (cases "opt \<in> {''-t'', ''--time''}")
      case True
      then have "\<not> isl (py_int arg)" using Cons.prems(2) p by auto
      then obtain n where "py_int arg = Inr n" by (cases "py_int arg") auto
      then show ?thesis using p False True rest by (simp add: Let_def)
    next
      case nt: False
      then show ?thesis using p False rest by (simp add: Let_def)
    qed
  qed
qed

lemma read_command_line_help:
  assumes "getopt argv shortopts longopts = Inr (pre @ (h, a) # post, args)"
    and "h \<in> {''-h'', ''--help''}"
    and "\<forall>(opt, arg) \<in> set pre. opt \<in> {''-t'', ''--time''} \<longrightarrow> \<not> isl (py_int arg)"
  shows "read_command_line argv = ([Print [Str_val helpInfo]], Inl (SystemExit 0))"
  using assms opts_loop_help[OF assms(2,3), of a post initial_vars]
  by (simp add: read_command_line_def)

text \<open>
  The digit limit of \<^verbatim>\<open>int\<close>: white space and the sign are no digits, so a string with
  more than 4300 digit characters is rejected whatever else it holds.
\<close>

lemma filter_dropWhile_disjoint:
  "(\<And>x. Q x \<Longrightarrow> \<not> P x) \<Longrightarrow> filter P (dropWhile Q xs) = filter P xs"
  by (induction xs) auto

lemma space_not_digit: "is_space c \<Longrightarrow> \<not> is_digit c"
  by (auto simp: is_space_def is_digit_def)

lemma filter_is_digit_strip: "filter is_digit (strip s) = filter is_digit s"
proof -
  have "filter is_digit (strip s)
          = rev (filter is_digit (dropWhile is_space (rev (dropWhile is_space s))))"
    by (simp add: strip_def rev_filter)
  also have "\<dots> = rev (filter is_digit (rev (dropWhile is_space s)))"
    by (simp only: filter_dropWhile_disjoint[of is_space is_digit, OF space_not_digit])
  also have "\<dots> = filter is_digit (dropWhile is_space s)"
    by (simp add: rev_filter)
  also have "\<dots> = filter is_digit s"
    by (rule filter_dropWhile_disjoint[OF space_not_digit])
  finally show ?thesis .
qed

lemma py_int_digit_limit:
  assumes "int_max_str_digits < length (filter is_digit s)"
  shows "py_int s = Inl ValueError"
proof -
  define t where "t = strip s"
  define nb where "nb = (case t of
               [] \<Rightarrow> (False, t)
             | c # r \<Rightarrow>
                 if c = CHR ''-'' then (True, r)
                 else if c = CHR ''+'' then (False, r)
                 else (False, t))"
  obtain neg body where nb_eq: "nb = (neg, body)" by (cases nb)
  have sign: "\<not> is_digit CHR ''-''" "\<not> is_digit CHR ''+''"
    by (simp_all add: is_digit_def)
  have "filter is_digit (snd nb) = filter is_digit t"
    unfolding nb_def using sign by (cases t) auto
  with nb_eq have fb: "filter is_digit body = filter is_digit s"
    by (simp add: t_def filter_is_digit_strip)
  have p: "py_int s =
       (case body of
           [] \<Rightarrow> Inl ValueError
         | c # _ \<Rightarrow>
             if is_digit c then
               (case parse_digits body 0 of
                  None \<Rightarrow> Inl ValueError
                | Some n \<Rightarrow>
                    if length (filter is_digit body) > int_max_str_digits then Inl ValueError
                    else Inr (if neg then - n else n))
             else Inl ValueError)"
    unfolding py_int_def Let_def t_def[symmetric] nb_def[symmetric] nb_eq by simp
  show ?thesis
  proof (cases body)
    case Nil
    then show ?thesis unfolding p by simp
  next
    case (Cons c cs)
    show ?thesis
    proof (cases "is_digit c")
      case False
      then show ?thesis unfolding p Cons by simp
    next
      case True
      have l: "length (filter is_digit (c # cs)) > int_max_str_digits"
        using assms fb Cons by simp
      show ?thesis
        unfolding p Cons using True l
        by (cases "parse_digits (c # cs) 0") (simp_all del: parse_digits.simps filter.simps)
    qed
  qed
qed

text \<open>
  Hence a \<^verbatim>\<open>-t\<close> whose argument is beyond the limit ends the script with \<^verbatim>\<open>ValueError\<close>
  before a later \<^verbatim>\<open>-h\<close> is looked at, as any other argument that \<^verbatim>\<open>int\<close> rejects does.
\<close>

lemma getopt_t_arg_h:
  "getopt [''-t'', a, ''-h''] shortopts longopts = Inr ([(''-t'', a), (''-h'', [])], [])"
  by (simp add: getopt_def shortopts_def longopts_def startswith_def)

lemma time_argument_over_limit:
  assumes "int_max_str_digits < length (filter is_digit a)"
  shows "main [''-t'', a, ''-h''] e = ([], Inl ValueError)"
proof -
  have "read_command_line [''-t'', a, ''-h''] = ([], Inl ValueError)"
    by (simp add: read_command_line_def getopt_t_arg_h py_int_digit_limit[OF assms])
  then show ?thesis by (rule main_command_line_error)
qed

lemma over_limit_example:
  "isl (py_int (CHR ''1'' # replicate 4300 CHR ''0''))
   \<and> main [''-t'', CHR ''1'' # replicate 4300 CHR ''0'', ''-h''] example_env = ([], Inl ValueError)"
proof -
  have l: "int_max_str_digits < length (filter is_digit (CHR ''1'' # replicate 4300 CHR ''0''))"
    by (simp add: int_max_str_digits_def is_digit_def)
  from py_int_digit_limit[OF l] time_argument_over_limit[OF l] show ?thesis by simp
qed

text \<open>
  C7, as amended. When \<^verbatim>\<open>getopt\<close> parses the command line and a help option is among the
  options it returns, and \<^verbatim>\<open>int\<close> accepts the argument of every \<^verbatim>\<open>-t\<close> or \<^verbatim>\<open>--time\<close> before
  it (a decimal literal within the digit limit), the script prints the help text and
  leaves with status 0. When \<^verbatim>\<open>getopt\<close> rejects the command line, the script prints the
  usage text and leaves with status 1.
\<close>

theorem help_or_usage:
  "(getopt argv shortopts longopts = Inr (pre @ (h, a) # post, args)
      \<and> h \<in> {''-h'', ''--help''}
      \<and> (\<forall>(opt, arg) \<in> set pre. opt \<in> {''-t'', ''--time''} \<longrightarrow> \<not> isl (py_int arg))
    \<longrightarrow> main argv e = ([Print [Str_val helpInfo]], Inl (SystemExit 0))
        \<and> exit_code (snd (main argv e)) = 0)
   \<and> (getopt argv shortopts longopts = Inl GetoptError
    \<longrightarrow> main argv e = ([Print [Str_val usageInfo]], Inl (SystemExit 1))
        \<and> exit_code (snd (main argv e)) = 1)"
proof (intro conjI impI)
  assume h: "getopt argv shortopts longopts = Inr (pre @ (h, a) # post, args)
      \<and> h \<in> {''-h'', ''--help''}
      \<and> (\<forall>(opt, arg) \<in> set pre. opt \<in> {''-t'', ''--time''} \<longrightarrow> \<not> isl (py_int arg))"
  then have "read_command_line argv = ([Print [Str_val helpInfo]], Inl (SystemExit 0))"
    using read_command_line_help[of argv pre h a post args] by blast
  then show "main argv e = ([Print [Str_val helpInfo]], Inl (SystemExit 0))"
    by (rule main_command_line_error)
  then show "exit_code (snd (main argv e)) = 0" by simp
next
  assume g: "getopt argv shortopts longopts = Inl GetoptError"
  show "main argv e = ([Print [Str_val usageInfo]], Inl (SystemExit 1))"
    by (rule main_command_line_error[OF read_command_line_getopt_error[OF g]])
  then show "exit_code (snd (main argv e)) = 1" by simp
qed

lemma getopt_help_example:
  "getopt [''-c'', ''--time=5'', ''--help'', ''-t'', ''soon''] shortopts longopts
     = Inr ([(''-c'', []), (''--time'', ''5'')] @ (''--help'', []) # [(''-t'', ''soon'')], [])"
  by (simp add: getopt_def shortopts_def longopts_def startswith_def endswith_def do_longs_def
        long_has_args_def)

lemma getopt_unknown_example: "getopt [''-c'', ''-x''] shortopts longopts = Inl GetoptError"
  by (simp add: getopt_def shortopts_def longopts_def startswith_def)

lemma py_int_5: "py_int ''5'' = Inr 5"
  by (simp add: py_int_def int_max_str_digits_def strip_def is_space_def is_digit_def digit_val_def)

theorem help_or_usage_witness:
  "main [''-c'', ''--time=5'', ''--help'', ''-t'', ''soon''] example_env
     = ([Print [Str_val helpInfo]], Inl (SystemExit 0))
   \<and> exit_code (snd (main [''-c'', ''--time=5'', ''--help'', ''-t'', ''soon''] example_env)) = 0
   \<and> main [''-c'', ''-x''] example_env = ([Print [Str_val usageInfo]], Inl (SystemExit 1))
   \<and> exit_code (snd (main [''-c'', ''-x''] example_env)) = 1"
proof -
  have p: "\<forall>(opt, arg) \<in> set [(''-c'', []), (''--time'', ''5'')].
             opt \<in> {''-t'', ''--time''} \<longrightarrow> \<not> isl (py_int arg)"
    by (simp add: py_int_5)
  have h: "''--help'' \<in> {''-h'', ''--help''}" by simp
  from help_or_usage[of "[''-c'', ''--time=5'', ''--help'', ''-t'', ''soon'']"
      "[(''-c'', []), (''--time'', ''5'')]" "''--help''" "[]" "[(''-t'', ''soon'')]" "[]" example_env]
    getopt_help_example p h
    help_or_usage[of "[''-c'', ''-x'']" "[]" "[]" "[]" "[]" "[]" example_env] getopt_unknown_example
  show ?thesis by blast
qed

lemma getopt_t_abc_h:
  "getopt [''-t'', ''abc'', ''-h''] shortopts longopts = Inr ([(''-t'', ''abc''), (''-h'', [])], [])"
  by (simp add: getopt_def shortopts_def longopts_def startswith_def)

lemma py_int_abc: "py_int ''abc'' = Inl ValueError"
  by (simp add: py_int_def int_max_str_digits_def strip_def is_space_def is_digit_def)

text \<open>
  C7 as stated fails: in \<^verbatim>\<open>-t abc -h\<close> the option \<^verbatim>\<open>-h\<close> is present and \<^verbatim>\<open>getopt\<close> returns
  it, but the loop converts the argument of \<^verbatim>\<open>-t\<close> first, \<^verbatim>\<open>int\<close> raises \<^verbatim>\<open>ValueError\<close>,
  nothing is printed by the script and the interpreter ends with status 1.
\<close>

theorem help_after_bad_time_counterexample:
  "''-h'' \<in> set [''-t'', ''abc'', ''-h'']
   \<and> getopt [''-t'', ''abc'', ''-h''] shortopts longopts = Inr ([(''-t'', ''abc''), (''-h'', [])], [])
   \<and> main [''-t'', ''abc'', ''-h''] example_env = ([], Inl ValueError)
   \<and> exit_code (snd (main [''-t'', ''abc'', ''-h''] example_env)) = 1"
proof -
  have "read_command_line [''-t'', ''abc'', ''-h''] = ([], Inl ValueError)"
    by (simp add: read_command_line_def getopt_t_abc_h py_int_abc)
  then have "main [''-t'', ''abc'', ''-h''] example_env = ([], Inl ValueError)"
    by (rule main_command_line_error)
  then show ?thesis using getopt_t_abc_h by simp
qed

text \<open>
  C8. A command line in which \<^verbatim>\<open>getopt\<close> finds no option, the empty one first of all, is
  well formed, yet the script treats it like a malformed one: it prints the usage text
  and leaves with status 1. So whenever the sessions endpoint is asked, that is whenever
  the idle check runs at all, the command line held at least one option.
\<close>

theorem no_options_usage_exit_1:
  "(getopt argv shortopts longopts = Inr ([], args) \<longrightarrow>
      main argv e = ([Print [Str_val usageInfo]], Inl (SystemExit 1))
      \<and> exit_code (snd (main argv e)) = 1)
   \<and> (Get_sessions p \<in> set (fst (main argv e)) \<longrightarrow>
      (\<exists>opts args'. getopt argv shortopts longopts = Inr (opts, args') \<and> opts \<noteq> []))"
proof (intro conjI impI)
  assume g: "getopt argv shortopts longopts = Inr ([], args)"
  from main_command_line_error[OF read_command_line_no_opts[OF g]]
  show "main argv e = ([Print [Str_val usageInfo]], Inl (SystemExit 1))" .
  then show "exit_code (snd (main argv e)) = 1" by simp
next
  assume s: "Get_sessions p \<in> set (fst (main argv e))"
  show "\<exists>opts args'. getopt argv shortopts longopts = Inr (opts, args') \<and> opts \<noteq> []"
  proof (cases "getopt argv shortopts longopts")
    case (Inl x)
    then have "read_command_line argv = ([Print [Str_val usageInfo]], Inl (SystemExit 1))
               \<or> read_command_line argv = ([], Inl x)"
      by (simp add: read_command_line_def)
    then have "fst (main argv e) = [Print [Str_val usageInfo]] \<or> fst (main argv e) = []"
      using main_command_line_error by fastforce
    with s show ?thesis by auto
  next
    case (Inr r)
    obtain opts args' where r: "r = (opts, args')" by (cases r)
    show ?thesis
    proof (cases "opts = []")
      case True
      with Inr r have "main argv e = ([Print [Str_val usageInfo]], Inl (SystemExit 1))"
        using main_command_line_error[OF read_command_line_no_opts] by simp
      with s show ?thesis by simp
    next
      case False
      with Inr r show ?thesis by simp
    qed
  qed
qed

theorem no_options_usage_exit_1_witness:
  "main [] example_env = ([Print [Str_val usageInfo]], Inl (SystemExit 1))
   \<and> exit_code (snd (main [] example_env)) = 1
   \<and> Get_sessions ''8443'' \<in> set (fst (main [''-c''] example_env))
   \<and> (\<exists>opts args'. getopt [''-c''] shortopts longopts = Inr (opts, args') \<and> opts \<noteq> [])"
proof -
  have g: "getopt [] shortopts longopts = Inr ([], [])"
    by (simp add: getopt_def)
  have s: "Get_sessions ''8443'' \<in> set (fst (main [''-c''] example_env))"
    by (simp add: main_def idle_determination_c)
  from no_options_usage_exit_1[of "[]" "[]" example_env "''8443''"] g
    no_options_usage_exit_1[of "[''-c'']" "[]" example_env "''8443''"] s
  show ?thesis by blast
qed

subsection \<open>When the instance is stopped\<close>

lemma stop_calls_append [simp]: "stop_calls (a @ b) = stop_calls a @ stop_calls b"
  by (induction a rule: stop_calls.induct) auto

lemma stop_calls_bind_run:
  "stop_calls (fst (bind_run m f))
     = stop_calls (fst m) @ (case snd m of Inl x \<Rightarrow> [] | Inr a \<Rightarrow> stop_calls (fst (f a)))"
  by (simp add: fst_bind_run split: sum.splits)

lemma stop_calls_is_idle [simp]: "stop_calls (fst (is_idle clock a b)) = []"
  by (simp add: is_idle_def split: pyval.splits sum.splits)

lemma stop_calls_call_is_idle [simp]: "stop_calls (fst (call_is_idle clock args)) = []"
  by (induction clock args rule: call_is_idle.induct) simp_all

lemma stop_calls_check_session [simp]: "stop_calls (fst (check_session clock notebook v)) = []"
  by (simp add: check_session_def stop_calls_bind_run Let_def split: sum.splits)

lemma stop_calls_session_loop [simp]: "stop_calls (fst (session_loop clock data v)) = []"
  by (induction data arbitrary: v) (simp_all add: stop_calls_bind_run split: sum.splits)

lemma fst_call_get_notebook_timeout_tag [simp]: "fst (call_get_notebook_timeout_tag args) = []"
  by (induction args rule: call_get_notebook_timeout_tag.induct) simp_all

lemma fst_select_timeout [simp]: "fst (select_timeout v) = []"
  by (simp add: select_timeout_def fst_bind_run split: sum.splits)

lemma stop_calls_instance_check [simp]: "stop_calls (fst (instance_check e res v)) = []"
  by (simp add: instance_check_def stop_calls_bind_run Let_def split: sum.splits)

lemma stop_calls_idle_checks [simp]: "stop_calls (fst (idle_checks e v)) = []"
  by (simp add: idle_checks_def Let_def)

lemma stop_calls_opts_loop [simp]: "stop_calls (fst (opts_loop opts v)) = []"
proof (induction opts arbitrary: v)
  case Nil
  show ?case by simp
next
  case (Cons p opts)
  obtain opt arg where p: "p = (opt, arg)" by (cases p)
  show ?case
    unfolding p by (cases "py_int arg") (simp_all add: Let_def Cons.IH)
qed

lemma stop_calls_read_command_line [simp]: "stop_calls (fst (read_command_line argv)) = []"
proof (cases "getopt argv shortopts longopts")
  case (Inl x)
  then show ?thesis by (simp add: read_command_line_def)
next
  case (Inr r)
  obtain opts args where r: "r = (opts, args)" by (cases r)
  obtain tr res where o: "opts_loop opts initial_vars = (tr, res)"
    by (cases "opts_loop opts initial_vars")
  have "stop_calls tr = []"
    using stop_calls_opts_loop[of opts initial_vars] o by simp
  then show ?thesis using Inr r o by (simp add: read_command_line_def)
qed

lemma stop_calls_idle_determination [simp]: "stop_calls (fst (idle_determination argv e)) = []"
  by (simp add: idle_determination_def function_definitions_def stop_calls_bind_run split: sum.splits)

lemma stop_calls_main:
  "stop_calls (fst (main argv e))
     = (if map_sum id idle (snd (idle_determination argv e)) = Inr True
        then [name (resource_metadata e)] else [])"
  by (cases "snd (idle_determination argv e)")
     (simp_all add: main_def stop_calls_bind_run stop_decision_def get_notebook_resource_def)

text \<open>
  C6. \<^verbatim>\<open>stop_notebook_instance\<close> is called exactly when the script reaches line 133 with
  the flag \<^verbatim>\<open>idle\<close> true, that is when no check has set the flag to false and none has
  raised; it is then called once, on the instance named in the metadata file. Nothing
  before line 133 calls it.
\<close>

theorem stop_iff_idle:
  "stop_calls (fst (main argv e))
     = (if map_sum id idle (snd (idle_determination argv e)) = Inr True
        then [name (resource_metadata e)] else [])"
  by (rule stop_calls_main)

theorem stop_iff_idle_witness:
  "stop_calls (fst (main [''-t'', ''60''] example_env)) = [''demo'']
   \<and> map_sum id idle (snd (idle_determination [''-t'', ''60''] example_env)) = Inr True
   \<and> stop_calls (fst (main [''-c''] example_env)) = []
   \<and> map_sum id idle (snd (idle_determination [''-c''] example_env)) = Inl TypeError"
proof -
  have d: "map_sum id idle (snd (idle_determination [''-t'', ''60''] example_env)) = Inr True"
    by (simp add: idle_determination_t60 initial_vars_def)
  have c: "map_sum id idle (snd (idle_determination [''-c''] example_env)) = Inl TypeError"
    by (simp add: idle_determination_c)
  have n: "name (resource_metadata example_env) = ''demo''"
    by (simp add: example_env_def)
  from stop_iff_idle[of "[''-t'', ''60'']" example_env] stop_iff_idle[of "[''-c'']" example_env]
    d c n
  show ?thesis by simp
qed

subsection \<open>The loop over the sessions\<close>

lemma check_session_sets_false:
  "snd (check_session clock notebook v) = Inr v1 \<Longrightarrow> v1 = v\<lparr>idle := False\<rparr>"
  by (auto simp: check_session_def Let_def split: if_splits)

lemma session_loop_append:
  "session_loop clock (xs @ ys) v = bind_run (session_loop clock xs v) (session_loop clock ys)"
proof (induction xs arbitrary: v)
  case Nil
  show ?case by simp
next
  case (Cons x xs)
  show ?case
  proof (cases "check_session clock x v")
    case (Pair tr r)
    show ?thesis
    proof (cases r)
      case (Inl err)
      with Pair show ?thesis by simp
    next
      case (Inr v1)
      obtain tr1 r1 where l: "session_loop clock xs v1 = (tr1, r1)"
        by (cases "session_loop clock xs v1")
      show ?thesis using Pair Inr l Cons.IH[of v1] by (cases r1) simp_all
    qed
  qed
qed

lemma session_loop_mono:
  "snd (session_loop clock data v) = Inr v1 \<Longrightarrow> idle v1 \<Longrightarrow> idle v"
proof (induction data arbitrary: v)
  case Nil
  then show ?case by simp
next
  case (Cons x data)
  from Cons.prems(1) obtain w where w: "snd (check_session clock x v) = Inr w"
    and l: "snd (session_loop clock data w) = Inr v1"
    by (auto simp: snd_bind_run split: sum.splits)
  from Cons.IH[OF l Cons.prems(2)] have "idle w" .
  with check_session_sets_false[OF w] show ?case by simp
qed


lemma session_loop_nonempty_not_idle:
  assumes "data \<noteq> []" and r: "snd (session_loop clock data v) = Inr v1"
  shows "\<not> idle v1"
proof -
  from assms(1) obtain x xs where d: "data = x # xs" by (cases data) auto
  from r d obtain w where w: "snd (check_session clock x v) = Inr w"
    and l: "snd (session_loop clock xs w) = Inr v1"
    by (auto simp: snd_bind_run split: sum.splits)
  have "\<not> idle w" using check_session_sets_false[OF w] by simp
  with session_loop_mono[OF l] show ?thesis by blast
qed

lemma opts_loop_idle: "snd (opts_loop opts v) = Inr v1 \<Longrightarrow> idle v1 = idle v"
proof (induction opts arbitrary: v)
  case Nil
  then show ?case by simp
next
  case (Cons p opts)
  obtain opt arg where p: "p = (opt, arg)" by (cases p)
  have nh: "opt \<notin> set [''-h'', ''--help'']"
    using Cons.prems unfolding p by (auto split: if_splits)
  define v0 where "v0 = (if opt \<in> set [''-t'', ''--time'']
                         then (case py_int arg of Inl e \<Rightarrow> Inl e
                               | Inr n \<Rightarrow> Inr (v\<lparr>idle_timeout := Some n\<rparr>))
                         else Inr v)"
  obtain w where w: "v0 = Inr w"
    using Cons.prems nh unfolding p v0_def by (cases "py_int arg") (auto split: if_splits)
  have iw: "idle w = idle v"
    using w unfolding v0_def by (cases "py_int arg") (auto split: if_splits)
  define v3 where "v3 = (let v2 = (if opt \<in> set [''-p'', ''--port''] then w\<lparr>port := arg\<rparr> else w)
                         in if opt \<in> set [''-c'', ''--ignore-connections'']
                            then v2\<lparr>ignore_connections := True\<rparr> else v2)"
  have i3: "idle v3 = idle w" by (simp add: v3_def Let_def)
  have "opts_loop (p # opts) v = opts_loop opts v3"
    unfolding p using nh w[unfolded v0_def]
    by (simp only: opts_loop.simps if_False v3_def Let_def sum.case)
  with Cons.prems have "snd (opts_loop opts v3) = Inr v1" by simp
  from Cons.IH[OF this] i3 iw show ?case by simp
qed


lemma read_command_line_idle:
  assumes a: "snd (read_command_line argv) = Inr v"
  shows "idle v"
proof (cases "getopt argv shortopts longopts")
  case (Inl x)
  with a show ?thesis by (simp add: read_command_line_def split: if_splits)
next
  case (Inr r)
  obtain opts args where r: "r = (opts, args)" by (cases r)
  obtain tr res where o: "opts_loop opts initial_vars = (tr, res)"
    by (cases "opts_loop opts initial_vars")
  from a Inr r o have "res = Inr v"
    by (simp add: read_command_line_def split: if_splits)
  with o have "snd (opts_loop opts initial_vars) = Inr v" by simp
  from opts_loop_idle[OF this] show ?thesis
    by (simp add: initial_vars_def)
qed

text \<open>
  With a session in the list the instance is never stopped: the loop either raises or
  ends with the flag false.
\<close>

lemma sessions_never_stopped:
  assumes "sessions e \<noteq> []"
  shows "stop_calls (fst (main argv e)) = []"
proof (rule ccontr)
  assume "stop_calls (fst (main argv e)) \<noteq> []"
  then obtain v1 where d: "snd (idle_determination argv e) = Inr v1" and i: "idle v1"
    unfolding stop_calls_main by (cases "snd (idle_determination argv e)") (auto split: if_splits)
  from d obtain v0 where "snd (idle_checks e v0) = Inr v1"
    by (auto simp: idle_determination_def snd_bind_run split: sum.splits)
  with assms have "snd (session_loop (now e) (sessions e) v0) = Inr v1"
    by (simp add: idle_checks_def Let_def)
  from session_loop_nonempty_not_idle[OF assms this] i show False by simp
qed

text \<open>
  C10. The flag \<^verbatim>\<open>idle\<close> is true when the loop over the sessions starts, since line 43
  sets it and reading the command line leaves it alone. No pass through the loop body
  raises it: the flag after the body is at most the flag before (with \<open>False < True\<close>),
  and so the flag after a longer prefix of the list is at most the flag after a shorter
  one. Hence the instance is stopped only if every session of the list passed its checks:
  as soon as the list holds a session that does not, the script makes no stop call.
\<close>

theorem idle_flag_never_rises:
  "idle initial_vars
   \<and> (snd (read_command_line argv) = Inr v0 \<longrightarrow> idle v0)
   \<and> (snd (check_session clock notebook v) = Inr v1 \<longrightarrow> idle v1 \<le> idle v)
   \<and> (snd (session_loop clock xs v) = Inr v1' \<and> snd (session_loop clock (xs @ ys) v) = Inr v2
        \<longrightarrow> idle v2 \<le> idle v1')
   \<and> (nb \<in> set (sessions e) \<and> \<not> passes_checks (now e) v0 nb
        \<longrightarrow> stop_calls (fst (main argv e)) = [])"
proof (intro conjI impI)
  show "idle initial_vars" by (simp add: initial_vars_def)
next
  assume "snd (read_command_line argv) = Inr v0"
  then show "idle v0" by (rule read_command_line_idle)
next
  assume "snd (check_session clock notebook v) = Inr v1"
  then show "idle v1 \<le> idle v" using check_session_sets_false[of clock notebook v v1] by simp
next
  assume a: "snd (session_loop clock xs v) = Inr v1' \<and> snd (session_loop clock (xs @ ys) v) = Inr v2"
  then have "snd (session_loop clock ys v1') = Inr v2"
    by (auto simp: session_loop_append snd_bind_run)
  then show "idle v2 \<le> idle v1'" using session_loop_mono by auto
next
  assume "nb \<in> set (sessions e) \<and> \<not> passes_checks (now e) v0 nb"
  then have "sessions e \<noteq> []" by auto
  then show "stop_calls (fst (main argv e)) = []" by (rule sessions_never_stopped)
qed

lemma check_session_busy:
  "check_session clock busy_session v
     = ([Print [Str_val ''Notebook is not idle:'', Str_val ''busy'']], Inr (v\<lparr>idle := False\<rparr>))"
  by (simp add: check_session_def busy_session_def)

lemma check_session_connected:
  "\<not> ignore_connections v \<Longrightarrow>
   check_session clock connected_session v
     = ([Print [Str_val ''Notebook idle state set as False because no kernel has been detected.'']],
        Inr (v\<lparr>idle := False\<rparr>))"
  by (simp add: check_session_def connected_session_def Let_def str_bool_def)

lemma main_t60:
  "main [''-t'', ''60''] example_env
     = ([Get_sessions ''8443'', Describe_notebook_instance ''demo'',
         List_tags ''arn:aws:sagemaker:eu-west-1:123456789012:notebook-instance/demo'',
         Print [Str_val ''Notebook is idle. Last activity time = '',
                Datetime_val (LastModifiedTime example_env)],
         Print [Str_val ''Closing idle notebook''], Stop_notebook_instance ''demo''], Inr ())"
  by (simp add: main_def idle_determination_t60 stop_decision_def initial_vars_def
        get_notebook_resource_def example_env_fields)

theorem idle_flag_never_rises_witness:
  "idle initial_vars
   \<and> snd (read_command_line [''-t'', ''60'']) = Inr (initial_vars\<lparr>idle_timeout := Some 60\<rparr>)
   \<and> idle (initial_vars\<lparr>idle_timeout := Some 60\<rparr>)
   \<and> snd (check_session (now example_env) busy_session initial_vars)
       = Inr (initial_vars\<lparr>idle := False\<rparr>)
   \<and> idle (initial_vars\<lparr>idle := False\<rparr>) \<le> idle initial_vars
   \<and> snd (session_loop (now example_env) [busy_session] initial_vars)
       = Inr (initial_vars\<lparr>idle := False\<rparr>)
   \<and> snd (session_loop (now example_env) ([busy_session] @ [connected_session]) initial_vars)
       = Inr (initial_vars\<lparr>idle := False\<rparr>)
   \<and> busy_session \<in> set (sessions (example_env\<lparr>sessions := [busy_session]\<rparr>))
   \<and> \<not> passes_checks (now (example_env\<lparr>sessions := [busy_session]\<rparr>))
          (initial_vars\<lparr>idle_timeout := Some 60\<rparr>) busy_session
   \<and> stop_calls (fst (main [''-t'', ''60''] (example_env\<lparr>sessions := [busy_session]\<rparr>))) = []"
proof -
  have r: "snd (read_command_line [''-t'', ''60'']) = Inr (initial_vars\<lparr>idle_timeout := Some 60\<rparr>)"
    by (simp add: read_command_line_t60)
  have c: "snd (check_session (now example_env) busy_session initial_vars)
             = Inr (initial_vars\<lparr>idle := False\<rparr>)"
    by (simp add: check_session_busy)
  have l1: "snd (session_loop (now example_env) [busy_session] initial_vars)
              = Inr (initial_vars\<lparr>idle := False\<rparr>)"
    by (simp add: check_session_busy)
  have l2: "snd (session_loop (now example_env) ([busy_session] @ [connected_session]) initial_vars)
              = Inr (initial_vars\<lparr>idle := False\<rparr>)"
    by (simp add: check_session_busy check_session_connected initial_vars_def)
  have m: "busy_session \<in> set (sessions (example_env\<lparr>sessions := [busy_session]\<rparr>))"
    by simp
  have p: "\<not> passes_checks (now (example_env\<lparr>sessions := [busy_session]\<rparr>))
             (initial_vars\<lparr>idle_timeout := Some 60\<rparr>) busy_session"
    by (simp add: passes_checks_def busy_session_def)
  from idle_flag_never_rises[of "[''-t'', ''60'']" "initial_vars\<lparr>idle_timeout := Some 60\<rparr>"
      "now example_env" busy_session initial_vars "initial_vars\<lparr>idle := False\<rparr>"
      "[busy_session]" "initial_vars\<lparr>idle := False\<rparr>" "[connected_session]"
      "initial_vars\<lparr>idle := False\<rparr>" busy_session "example_env\<lparr>sessions := [busy_session]\<rparr>"]
    r c l1 l2 m p
  show ?thesis by blast
qed


subsection \<open>The calls that lack an argument\<close>

lemma check_session_raises:
  "kernel_execution_state notebook = ''idle'' \<Longrightarrow>
   ignore_connections v \<or> kernel_connections notebook = 0 \<Longrightarrow>
   check_session clock notebook v = ([], Inl TypeError)"
  by (auto simp: check_session_def)

lemma select_timeout_raises:
  "not_timeout (idle_timeout v) \<Longrightarrow> select_timeout v = ([], Inl TypeError)"
  by (simp add: select_timeout_def)

text \<open>
  On an interpreter that evaluates annotations when a \<^verbatim>\<open>def\<close> statement runs, every
  invocation that gets past the command line ends at line 86, before any session is
  fetched.
\<close>

lemma eager_annotations_end_script:
  "\<not> annotations_deferred e \<Longrightarrow> read_command_line argv = (tr, Inr v) \<Longrightarrow>
     main argv e = (tr, Inl TypeError)"
  by (simp add: main_def idle_determination_def function_definitions_def)

text \<open>
  C2 (the script departs from it). One session, idle and without connections, and the
  command line \<^verbatim>\<open>-t 60\<close>: the loop body calls \<^verbatim>\<open>is_idle\<close> with the last activity alone,
  the call raises \<^verbatim>\<open>TypeError\<close> for the missing \<^verbatim>\<open>idle_timeout\<close>, and the script ends there,
  right after it has asked for the sessions, with status 1.
\<close>

theorem idle_session_check_raises:
  "call_is_idle (now example_env) [Str_val (kernel_last_activity idle_session)] = ([], Inl TypeError)
   \<and> check_session (now example_env) idle_session (initial_vars\<lparr>idle_timeout := Some 60\<rparr>)
       = ([], Inl TypeError)
   \<and> main [''-t'', ''60''] (example_env\<lparr>sessions := [idle_session]\<rparr>)
       = ([Get_sessions ''8443''], Inl TypeError)
   \<and> exit_code (snd (main [''-t'', ''60''] (example_env\<lparr>sessions := [idle_session]\<rparr>))) = 1"
proof -
  have c: "\<And>v. check_session (now example_env) idle_session v = ([], Inl TypeError)"
    by (rule check_session_raises) (simp_all add: idle_session_def)
  have "main [''-t'', ''60''] (example_env\<lparr>sessions := [idle_session]\<rparr>)
          = ([Get_sessions ''8443''], Inl TypeError)"
    by (simp add: main_def idle_determination_def read_command_line_t60 function_definitions_def
          idle_checks_def Let_def example_env_fields c initial_vars_def)
  with c show ?thesis by simp
qed

text \<open>
  C4 (the script departs from it). No session and the command line \<^verbatim>\<open>-c\<close>, which is
  well formed and gives no timeout: the script fetches the time of the last modification
  and the tags, then line 124 calls \<^verbatim>\<open>get_notebook_timeout_tag\<close> without its argument,
  which raises \<^verbatim>\<open>TypeError\<close>. \<^verbatim>\<open>is_idle\<close> is never applied to the time of the last
  modification, and no decision is taken.
\<close>

theorem fallback_without_timeout_raises:
  "sessions example_env = []
   \<and> main [''-c''] example_env
       = ([Get_sessions ''8443'', Describe_notebook_instance ''demo'',
           List_tags ''arn:aws:sagemaker:eu-west-1:123456789012:notebook-instance/demo''],
          Inl TypeError)
   \<and> exit_code (snd (main [''-c''] example_env)) = 1"
  by (simp add: main_def idle_determination_c example_env_fields)

text \<open>
  C9 (the script departs from it). No session and the command line \<^verbatim>\<open>-t 0\<close>: the value 0
  is read, the test of line 123 takes it for a missing timeout, and the call of line 124,
  made without its argument, raises \<^verbatim>\<open>TypeError\<close>. The value 0 is not used as the timeout,
  but neither the tag nor the default of 3600 seconds takes its place.
\<close>

theorem zero_timeout_raises:
  "read_command_line [''-t'', ''0''] = ([], Inr (initial_vars\<lparr>idle_timeout := Some 0\<rparr>))
   \<and> select_timeout (initial_vars\<lparr>idle_timeout := Some 0\<rparr>) = ([], Inl TypeError)
   \<and> main [''-t'', ''0''] example_env
       = ([Get_sessions ''8443'', Describe_notebook_instance ''demo'',
           List_tags ''arn:aws:sagemaker:eu-west-1:123456789012:notebook-instance/demo''],
          Inl TypeError)"
  by (simp add: main_def idle_determination_t0 read_command_line_t0 select_timeout_raises
        not_timeout_def)

subsection \<open>Ignoring the connections\<close>

text \<open>
  C5. With \<^verbatim>\<open>ignore_connections\<close> set, the pass of the loop body over a session whose
  kernel is idle does not depend on the number of connections: two such sessions with the
  same last activity give the same run, under the same variables, the timeout among them.
\<close>

theorem ignore_connections_skips_count:
  "ignore_connections v \<Longrightarrow>
   kernel_execution_state s1 = ''idle'' \<Longrightarrow> kernel_execution_state s2 = ''idle'' \<Longrightarrow>
   kernel_last_activity s1 = kernel_last_activity s2 \<Longrightarrow>
   check_session clock s1 v = check_session clock s2 v"
  by (simp add: check_session_def)

theorem ignore_connections_skips_count_witness:
  "kernel_connections idle_session \<noteq> kernel_connections connected_session
   \<and> check_session (now example_env) idle_session (initial_vars\<lparr>ignore_connections := True\<rparr>)
       = check_session (now example_env) connected_session
           (initial_vars\<lparr>ignore_connections := True\<rparr>)"
proof -
  have "check_session (now example_env) idle_session (initial_vars\<lparr>ignore_connections := True\<rparr>)
       = check_session (now example_env) connected_session
           (initial_vars\<lparr>ignore_connections := True\<rparr>)"
    by (rule ignore_connections_skips_count) (simp_all add: idle_session_def connected_session_def)
  then show ?thesis by (simp add: idle_session_def connected_session_def)
qed


subsection \<open>The timeout of the fallback branch\<close>

lemma get_notebook_timeout_tag_example:
  "get_notebook_timeout_tag (Tags example_env) = Inr (Some 120)"
  by (simp add: example_env_def DEFAULT_TAG_KEY_def py_int_def int_max_str_digits_def strip_def is_space_def is_digit_def
        digit_val_def)

text \<open>
  C3 as stated fails. With \<^verbatim>\<open>-t 0\<close> the flag is given, and the specification would have 0
  used; without \<^verbatim>\<open>-t\<close> it would have the value 120 of the tag used. In both cases the
  test of line 123 sends the script to line 124, which raises \<^verbatim>\<open>TypeError\<close>: no timeout is
  chosen.
\<close>

theorem timeout_precedence_counterexample:
  "get_notebook_timeout_tag (Tags example_env) = Inr (Some 120)
   \<and> map_sum id idle_timeout (snd (select_timeout (initial_vars\<lparr>idle_timeout := Some 0\<rparr>)))
       \<noteq> Inr (Some (spec_timeout (Some 0) (Some 120)))
   \<and> map_sum id idle_timeout (snd (select_timeout (initial_vars\<lparr>idle_timeout := None\<rparr>)))
       \<noteq> Inr (Some (spec_timeout None (Some 120)))"
  by (simp add: get_notebook_timeout_tag_example select_timeout_raises not_timeout_def)

text \<open>
  C3, as amended. A value of \<^verbatim>\<open>-t\<close> other than 0 is the timeout of the fallback branch:
  lines 123--127 leave it as it is, and the branch is the two client calls followed by
  \<^verbatim>\<open>is_idle\<close> on the time of the last modification with that value.
\<close>

theorem nonzero_cli_timeout_used:
  assumes "idle_timeout v = Some t" and "t \<noteq> 0"
  shows "map_sum id idle_timeout (snd (select_timeout v)) = Inr (Some (spec_timeout (Some t) tag_value))
         \<and> select_timeout v = ([], Inr v)
         \<and> instance_check e res v
           = bind_run ([Describe_notebook_instance (name res), List_tags (arn res)], Inr ())
               (\<lambda>_. bind_run
                  (is_idle (now e) (Str_val (strftime (LastModifiedTime e))) (Int_val t))
                  (\<lambda>r. if \<not> r
                        then ([Print [Str_val
                                 ''Notebook idle state set as False since no sessions detected.'']],
                              Inr (v\<lparr>idle := False\<rparr>))
                        else ([], Inr v)))"
proof -
  have s: "select_timeout v = ([], Inr v)"
    using assms by (simp add: select_timeout_def not_timeout_def)
  show ?thesis
    using assms
    by (simp add: s instance_check_def timeout_val_def spec_timeout_def Let_def str_bool_def
          cong: if_cong)
qed

theorem nonzero_cli_timeout_used_witness:
  "select_timeout (initial_vars\<lparr>idle_timeout := Some 60\<rparr>)
     = ([], Inr (initial_vars\<lparr>idle_timeout := Some 60\<rparr>))
   \<and> instance_check example_env (resource_metadata example_env)
       (initial_vars\<lparr>idle_timeout := Some 60\<rparr>)
     = ([Describe_notebook_instance ''demo'',
         List_tags ''arn:aws:sagemaker:eu-west-1:123456789012:notebook-instance/demo'',
         Print [Str_val ''Notebook is idle. Last activity time = '',
                Datetime_val (LastModifiedTime example_env)]],
        Inr (initial_vars\<lparr>idle_timeout := Some 60\<rparr>))"
  using nonzero_cli_timeout_used[of "initial_vars\<lparr>idle_timeout := Some 60\<rparr>" 60 "Some 120"
      example_env "resource_metadata example_env"]
  by (simp add: strftime_example is_idle_example example_env_fields)

subsection \<open>Rounding the elapsed seconds\<close>

lemma round_half_even_error: "\<bar>of_int (round_half_even x) - x\<bar> \<le> 1 / 2"
proof -
  define r where "r = x - of_int \<lfloor>x\<rfloor>"
  have r: "0 \<le> r" "r < 1" unfolding r_def by linarith+
  have x: "x = of_int \<lfloor>x\<rfloor> + r" by (simp add: r_def)
  consider "r < 1 / 2" | "1 / 2 < r" | "r = 1 / 2" by linarith
  then show ?thesis
  proof cases
    case 1
    then have "round_half_even x = \<lfloor>x\<rfloor>"
      by (simp add: round_half_even_def Let_def r_def)
    then show ?thesis using 1 r x by simp
  next
    case 2
    then have "round_half_even x = \<lfloor>x\<rfloor> + 1"
      by (simp add: round_half_even_def Let_def r_def)
    then have "of_int (round_half_even x) - x = 1 - r" using x by simp
    then show ?thesis using 2 r by simp
  next
    case 3
    then have "round_half_even x = \<lfloor>x\<rfloor> \<or> round_half_even x = \<lfloor>x\<rfloor> + 1"
      by (simp add: round_half_even_def Let_def r_def)
    then have "of_int (round_half_even x) - x = - r \<or> of_int (round_half_even x) - x = 1 - r"
      using x by auto
    then show ?thesis using 3 by auto
  qed
qed

lemma round_half_even_of_int: "round_half_even (of_int n) = n"
  by (simp add: round_half_even_def)

lemma bitlen_le: "0 < p \<Longrightarrow> p < 2 ^ n \<Longrightarrow> bitlen p \<le> int n"
proof -
  assume p: "0 < p" and l: "p < 2 ^ n"
  from bitlen_bounds[OF p] have "(2::int) ^ nat (bitlen p - 1) \<le> p" by simp
  with l have "(2::int) ^ nat (bitlen p - 1) < 2 ^ n" by linarith
  then have "nat (bitlen p - 1) < n" by simp
  then show ?thesis by linarith
qed

lemma bitlen_million: "bitlen 1000000 = 20"
  by code_simp

lemma floor_log2_quot_le:
  assumes p: "0 < p" and l: "p < 2 ^ 33 * 1000000"
  shows "floor_log2_quot p 1000000 \<le> 32"
proof -
  have "p < 2 ^ 53" using l by simp
  from bitlen_le[OF p this] have b: "bitlen p \<le> 53" by simp
  define d where "d = bitlen p - 20"
  have d: "d \<le> 33" using b by (simp add: d_def)
  show ?thesis
  proof (cases "(1000000 :: rat) * 2 powi d \<le> of_int p")
    case True
    have "(of_int p :: rat) < 2 ^ 33 * 1000000" using l by (simp flip: of_int_less_iff)
    with True have "(1000000 :: rat) * 2 powi d < 1000000 * 2 powi 33" by simp
    then have "(2 :: rat) powi d < 2 powi 33" by simp
    then have "d < 33" using power_int_le_imp_less_exp[of "2::rat" d 33] by simp
    with True show ?thesis
      by (simp add: floor_log2_quot_def bitlen_million d_def Let_def)
  next
    case False
    with d show ?thesis
      by (simp add: floor_log2_quot_def bitlen_million d_def Let_def)
  qed
qed


lemma double_exponent_le:
  assumes "a \<noteq> 0" and "\<bar>a\<bar> < 2 ^ 33 * 1000000"
  shows "floor_log2_quot \<bar>a\<bar> \<bar>1000000\<bar> - 52 \<le> - 20"
  using floor_log2_quot_le[of "\<bar>a\<bar>"] assms by simp

lemma nearest_double_close:
  assumes a: "a \<noteq> 0" and l: "\<bar>a\<bar> < 2 ^ 33 * 1000000"
  shows "\<bar>nearest_double a 1000000 - of_int a / 1000000\<bar> \<le> 1 / 2 ^ 21"
proof -
  define e where "e = floor_log2_quot \<bar>a\<bar> \<bar>1000000\<bar> - 52"
  define s :: rat where "s = 2 powi e"
  define x :: rat where "x = of_int a / 1000000"
  have e: "e \<le> - 20" unfolding e_def by (rule double_exponent_le[OF a l])
  have s0: "0 < s" by (simp add: s_def)
  have "s \<le> 2 powi (- 20)" unfolding s_def by (rule power_int_increasing[OF e]) simp
  then have s1: "s \<le> 1 / 2 ^ 20" by (simp add: power_int_minus_divide)
  have n: "nearest_double a 1000000 = of_int (round_half_even (x / s)) * s"
    using a by (simp add: nearest_double_def e_def s_def x_def Let_def)
  have "of_int (round_half_even (x / s)) * s - x = (of_int (round_half_even (x / s)) - x / s) * s"
    using s0 by (simp add: field_simps)
  then have "\<bar>of_int (round_half_even (x / s)) * s - x\<bar>
               = \<bar>of_int (round_half_even (x / s)) - x / s\<bar> * s"
    using s0 by (simp add: abs_mult)
  also have "\<dots> \<le> 1 / 2 * s"
    by (rule mult_right_mono[OF round_half_even_error]) (use s0 in simp)
  also have "\<dots> \<le> 1 / 2 ^ 21" using s1 by simp
  finally show ?thesis unfolding n x_def .
qed

lemma nearest_double_integer:
  assumes l: "\<bar>t\<bar> < 2 ^ 33"
  shows "nearest_double (t * 1000000) 1000000 = of_int t"
proof (cases "t = 0")
  case True
  then show ?thesis by (simp add: nearest_double_def)
next
  case False
  define a where "a = t * 1000000"
  define e where "e = floor_log2_quot \<bar>a\<bar> \<bar>1000000\<bar> - 52"
  have a: "a \<noteq> 0" using False by (simp add: a_def)
  have la: "\<bar>a\<bar> < 2 ^ 33 * 1000000" using l by (simp add: a_def abs_mult)
  have e: "e \<le> - 20" unfolding e_def by (rule double_exponent_le[OF a la])
  define k where "k = nat (- e)"
  have ek: "e = - int k" using e by (simp add: k_def)
  have p: "(2 :: rat) powi e = 1 / 2 ^ k" by (simp add: ek power_int_minus_divide)
  have q: "of_int a / 1000000 / ((2 :: rat) powi e) = of_int (t * 2 ^ k)"
    by (simp add: p a_def)
  have "nearest_double a 1000000 = of_int (round_half_even (of_int (t * 2 ^ k))) * 2 powi e"
    using a q by (simp add: nearest_double_def e_def Let_def)
  also have "\<dots> = of_int (t * 2 ^ k) * (1 / 2 ^ k)"
    unfolding round_half_even_of_int p ..
  also have "\<dots> = of_int t" by simp
  finally show ?thesis by (simp add: a_def)
qed

lemma nearest_double_gt_iff:
  assumes l: "\<bar>a\<bar> < 2 ^ 33 * 1000000"
  shows "(of_int t < nearest_double a 1000000) = (t * 1000000 < a)"
proof -
  have eps: "(1 :: rat) / 2 ^ 21 < 1 / 1000000" by simp
  consider "t * 1000000 < a" | "t * 1000000 = a" | "a < t * 1000000" by linarith
  then show ?thesis
  proof cases
    case 1
    then have "t * 1000000 + 1 \<le> a" by simp
    then have "(of_int (t * 1000000 + 1) :: rat) \<le> of_int a" by (simp only: of_int_le_iff)
    then have a0: "(of_int t :: rat) + 1 / 1000000 \<le> of_int a / 1000000" by simp
    show ?thesis
    proof (cases "a = 0")
      case True
      with 1 show ?thesis by (simp add: nearest_double_def)
    next
      case False
      from nearest_double_close[OF False l]
      have "of_int a / 1000000 - 1 / 2 ^ 21 \<le> nearest_double a 1000000"
        by (simp only: abs_le_iff) linarith
      with a0 eps have "of_int t < nearest_double a 1000000" by linarith
      with 1 show ?thesis by simp
    qed
  next
    case 2
    have "\<bar>t\<bar> * 1000000 < 2 ^ 33 * 1000000" using l unfolding 2[symmetric] by (simp add: abs_mult)
    then have "\<bar>t\<bar> < 2 ^ 33" by simp
    from nearest_double_integer[OF this] 2 show ?thesis by simp
  next
    case 3
    then have "a + 1 \<le> t * 1000000" by simp
    then have "(of_int (a + 1) :: rat) \<le> of_int (t * 1000000)" by (simp only: of_int_le_iff)
    then have a0: "of_int a / 1000000 + 1 / 1000000 \<le> (of_int t :: rat)" by simp
    show ?thesis
    proof (cases "a = 0")
      case True
      with 3 show ?thesis by (simp add: nearest_double_def)
    next
      case False
      from nearest_double_close[OF False l]
      have "nearest_double a 1000000 \<le> of_int a / 1000000 + 1 / 2 ^ 21"
        by (simp only: abs_le_iff) linarith
      with a0 eps have "nearest_double a 1000000 < of_int t" by linarith
      with 3 show ?thesis by simp
    qed
  qed
qed

subsection \<open>The idle check\<close>

lemma to_microseconds_new_timedelta:
  "to_microseconds (new_timedelta d s us) = (d * 86400 + s) * 1000000 + us"
proof -
  define s1 where "s1 = s + us div 1000000"
  have "to_microseconds (new_timedelta d s us)
          = ((d + s1 div 86400) * 86400 + s1 mod 86400) * 1000000 + us mod 1000000"
    by (simp add: to_microseconds_def new_timedelta_def Let_def s1_def)
  also have "\<dots> = (d * 86400 + (s1 div 86400 * 86400 + s1 mod 86400)) * 1000000 + us mod 1000000"
    by (simp add: algebra_simps)
  also have "\<dots> = (d * 86400 + s1) * 1000000 + us mod 1000000"
    by (simp only: div_mult_mod_eq)
  also have "\<dots> = (d * 86400 + s) * 1000000 + (us div 1000000 * 1000000 + us mod 1000000)"
    by (simp add: s1_def algebra_simps)
  also have "\<dots> = (d * 86400 + s) * 1000000 + us"
    by (simp only: div_mult_mod_eq)
  finally show ?thesis .
qed

lemma to_microseconds_datetime_sub:
  "to_microseconds (datetime_sub clock dt) = elapsed_microseconds clock dt"
  by (simp add: datetime_sub_def to_microseconds_new_timedelta elapsed_microseconds_def
        microseconds_since_epoch_def algebra_simps)

lemma snd_is_idle:
  "strptime s = Inr dt \<Longrightarrow>
   snd (is_idle clock (Str_val s) (Int_val t))
     = Inr (of_int t < total_seconds (datetime_sub clock dt))"
  by (simp add: is_idle_def)

text \<open>
  C1. For a string that \<^verbatim>\<open>strptime\<close> accepts and an integer timeout, \<^verbatim>\<open>is_idle\<close> raises
  nothing and returns whether the seconds elapsed between the parsed time and the clock,
  as \<^verbatim>\<open>total_seconds\<close> gives them, exceed the timeout. These seconds are the binary64
  number nearest to the exact span; as long as the span is shorter than \<open>2 ^ 33\<close> seconds
  (some 272 years) the rounding cannot change the answer, which is then that of the exact
  comparison, in microseconds.
\<close>

theorem is_idle_iff_elapsed:
  assumes "strptime s = Inr dt"
  shows "snd (is_idle clock (Str_val s) (Int_val t))
           = Inr (of_int t < total_seconds (datetime_sub clock dt))
         \<and> total_seconds (datetime_sub clock dt)
           = nearest_double (elapsed_microseconds clock dt) 1000000
         \<and> (\<bar>elapsed_microseconds clock dt\<bar> < 2 ^ 33 * 1000000 \<longrightarrow>
              snd (is_idle clock (Str_val s) (Int_val t))
                = Inr (t * 1000000 < elapsed_microseconds clock dt))"
  using assms
  by (simp add: snd_is_idle total_seconds_def to_microseconds_datetime_sub nearest_double_gt_iff)

lemma elapsed_microseconds_example:
  "elapsed_microseconds (now example_env) (LastModifiedTime example_env) = 10800000000"
  using microseconds_example by (simp add: to_microseconds_datetime_sub)

theorem is_idle_iff_elapsed_witness:
  "strptime ''2024-05-01T09:00:00.000000z'' = Inr (LastModifiedTime example_env)
   \<and> elapsed_microseconds (now example_env) (LastModifiedTime example_env) = 10800000000
   \<and> snd (is_idle (now example_env) (Str_val ''2024-05-01T09:00:00.000000z'') (Int_val 10799))
       = Inr True
   \<and> snd (is_idle (now example_env) (Str_val ''2024-05-01T09:00:00.000000z'') (Int_val 10800))
       = Inr False"
proof -
  have b: "\<bar>elapsed_microseconds (now example_env) (LastModifiedTime example_env)\<bar>
             < 2 ^ 33 * 1000000"
    by (simp add: elapsed_microseconds_example)
  from is_idle_iff_elapsed[OF strptime_example, of "now example_env" 10799] b
  have 1: "snd (is_idle (now example_env) (Str_val ''2024-05-01T09:00:00.000000z'') (Int_val 10799))
             = Inr (10799 * 1000000
                    < elapsed_microseconds (now example_env) (LastModifiedTime example_env))"
    by blast
  from is_idle_iff_elapsed[OF strptime_example, of "now example_env" 10800] b
  have 2: "snd (is_idle (now example_env) (Str_val ''2024-05-01T09:00:00.000000z'') (Int_val 10800))
             = Inr (10800 * 1000000
                    < elapsed_microseconds (now example_env) (LastModifiedTime example_env))"
    by blast
  show ?thesis
    unfolding 1 2 elapsed_microseconds_example by (simp add: strptime_example)
qed


end
